theory Spec2Isabelle
  imports Main "HOL-Library.Sublist"
begin

section \<open>Strings and the log-group ARN helper\<close>

text \<open>
  A JavaScript string is modelled as a \<^typ>\<open>string\<close>, one element per code unit.
  \<open>endsWith\<close> and \<open>substring\<close> follow the ECMAScript definitions: \<open>endsWith\<close>
  compares the last \<open>length t\<close> units of \<open>s\<close> with \<open>t\<close>; \<open>substring\<close> clamps both
  indices into \<open>0..length s\<close> and swaps them when they come in the wrong order.
\<close>

definition endsWith :: "string \<Rightarrow> string \<Rightarrow> bool" where
  "endsWith s t = (length t \<le> length s \<and> drop (length s - length t) s = t)"

definition substring :: "string \<Rightarrow> int \<Rightarrow> int \<Rightarrow> string" where
  "substring s start fin =
     (let n = int (length s);
          a = max 0 (min start n);
          b = max 0 (min fin n);
          lo = min a b;
          hi = max a b
      in take (nat (hi - lo)) (drop (nat lo) s))"

text \<open>
  \<^verbatim>\<open>
  function formatGroupArn(groupArn: string): string {
      return groupArn.endsWith(':*') ? groupArn.substring(0, groupArn.length - 2) : groupArn
  }
  \<close>
\<close>

definition formatGroupArn :: "string \<Rightarrow> string" where
  "formatGroupArn groupArn =
     (if endsWith groupArn '':*''
      then substring groupArn 0 (int (length groupArn) - 2)
      else groupArn)"

section \<open>SAM debug configurations\<close>

text \<open>
  An object property is either not there, there and holding \<open>undefined\<close>, or there with
  a value: the object spread of \<open>createTemplateAwsSamDebugConfig\<close> writes the keys
  \<open>lambda\<close> and \<open>sam\<close> even when their value is \<open>undefined\<close>.
\<close>

datatype 'a property = Missing | Undefined | Defined 'a

definition AWS_SAM_DEBUG_TYPE :: string where
  "AWS_SAM_DEBUG_TYPE = ''aws-sam''"

definition DIRECT_INVOKE_TYPE :: string where
  "DIRECT_INVOKE_TYPE = ''direct-invoke''"

definition TEMPLATE_TARGET_TYPE :: string where
  "TEMPLATE_TARGET_TYPE = ''template''"

definition CODE_TARGET_TYPE :: string where
  "CODE_TARGET_TYPE = ''code''"

record WorkspaceFolder =
  fsPath :: string
  folderName :: string

text \<open>The optional \<open>preloadedConfig\<close> argument; \<open>'j\<close> is a \<open>ReadonlyJsonObject\<close>.\<close>

record 'j PreloadedConfig =
  eventJson :: "'j option"
  environmentVariables :: "'j option"
  dockerNetwork :: "string option"
  useContainer :: "bool option"

record TargetProperties =
  target :: string
  samTemplatePath :: "string option"
  samTemplateResource :: "string option"
  projectRoot :: "string option"
  lambdaHandler :: "string option"

record 'j LambdaEvent =
  json :: 'j

record 'j LambdaProperties =
  event :: "'j LambdaEvent option"
  lambdaEnvironmentVariables :: "'j option"

record SamProperties =
  samDockerNetwork :: "string option"
  containerBuild :: "bool option"

record 'j AwsSamDebuggerConfiguration =
  "type" :: string
  request :: string
  name :: string
  invokeTarget :: TargetProperties
  lambda :: "'j LambdaProperties property"
  sam :: "SamProperties property"

definition isAwsSamDebugConfiguration :: "'j AwsSamDebuggerConfiguration \<Rightarrow> bool" where
  "isAwsSamDebugConfiguration config = (type config = AWS_SAM_DEBUG_TYPE)"

definition isTemplateTargetProperties :: "TargetProperties \<Rightarrow> bool" where
  "isTemplateTargetProperties props = (target props = TEMPLATE_TARGET_TYPE)"

definition isCodeTargetProperties :: "TargetProperties \<Rightarrow> bool" where
  "isCodeTargetProperties props = (target props = CODE_TARGET_TYPE)"

text \<open>
  \<open>extraInfo ? `${primaryName} (${extraInfo})` : `${primaryName}`\<close>: an absent and an
  empty \<open>extraInfo\<close> are both falsy.
\<close>

definition makeName :: "string \<Rightarrow> string option \<Rightarrow> string" where
  "makeName primaryName extraInfo =
     (case extraInfo of
        None \<Rightarrow> primaryName
      | Some e \<Rightarrow> if e = [] then primaryName else primaryName @ '' ('' @ e @ '')'')"

text \<open>Truthiness of the two optional scalars tested with \<open>||\<close>.\<close>

definition truthyString :: "string option \<Rightarrow> bool" where
  "truthyString s = (case s of None \<Rightarrow> False | Some t \<Rightarrow> t \<noteq> [])"

definition truthyBool :: "bool option \<Rightarrow> bool" where
  "truthyBool b = (case b of None \<Rightarrow> False | Some v \<Rightarrow> v)"

text \<open>
  \<open>getNormalizedRelativePath\<close> lives in \<open>pathUtils\<close>, outside the files at hand; it is
  the first argument. An object (\<open>eventJson\<close>, \<open>environmentVariables\<close>) is truthy
  whenever it is there.
\<close>

definition createTemplateAwsSamDebugConfig ::
  "(string \<Rightarrow> string \<Rightarrow> string) \<Rightarrow> WorkspaceFolder option \<Rightarrow> string option \<Rightarrow> string
     \<Rightarrow> string \<Rightarrow> 'j PreloadedConfig option \<Rightarrow> 'j AwsSamDebuggerConfiguration" where
  "createTemplateAwsSamDebugConfig getNormalizedRelativePath folder runtimeName resourceName
       templatePath preloadedConfig =
     (let workspaceRelativePath =
            (case folder of
               Some f \<Rightarrow> getNormalizedRelativePath (fsPath f) templatePath
             | None \<Rightarrow> templatePath);
          response =
            \<lparr> type = AWS_SAM_DEBUG_TYPE,
              request = DIRECT_INVOKE_TYPE,
              name = makeName resourceName runtimeName,
              invokeTarget =
                \<lparr> target = TEMPLATE_TARGET_TYPE,
                  samTemplatePath = Some workspaceRelativePath,
                  samTemplateResource = Some resourceName,
                  projectRoot = None,
                  lambdaHandler = None \<rparr>,
              lambda = Missing,
              sam = Missing \<rparr>
      in case preloadedConfig of
           Some pc \<Rightarrow>
             response
               \<lparr> lambda :=
                   (if environmentVariables pc \<noteq> None \<or> eventJson pc \<noteq> None
                    then Defined
                      \<lparr> event =
                          (case eventJson pc of
                             Some j \<Rightarrow> Some \<lparr> json = j \<rparr>
                           | None \<Rightarrow> None),
                        lambdaEnvironmentVariables = environmentVariables pc \<rparr>
                    else Undefined),
                 sam :=
                   (if truthyString (dockerNetwork pc) \<or> truthyBool (useContainer pc)
                    then Defined
                      \<lparr> samDockerNetwork = dockerNetwork pc,
                        containerBuild = useContainer pc \<rparr>
                    else Undefined) \<rparr>
         | None \<Rightarrow> response)"

section \<open>Prompt results, promises and errors\<close>

text \<open>
  Everything the TypeScript throws is a value of \<open>error\<close>: a plain \<open>Error\<close> with its
  message, a \<open>TypeError\<close>, a \<open>CancellationError\<close> with its agent, and a \<open>ToolkitError\<close>
  chained onto its cause.
\<close>

datatype error =
    Error string
  | TypeError string
  | CancellationError string
  | ToolkitError string error

text \<open>
  Modelled from the spec: \<open>PromptResult\<close> is declared in \<open>shared/ui/prompter\<close>, which is
  not among the files at hand. The spec gives it three variants, a value, the back
  signal and the cancel signal. The tests show how they look in TypeScript: an accepted
  value is the string itself, back is the constant \<open>WIZARD_BACK\<close>, and a dismissed
  prompt is observed as \<open>undefined\<close>.
\<close>

datatype 'a PromptResult = Value 'a | Back | Cancel

text \<open>A promise is pending until it settles, and it settles once: later calls of the
  resolver change nothing.\<close>

datatype 'a promise = Pending | Resolved 'a | Rejected error

definition resolve :: "'a \<Rightarrow> 'a promise \<Rightarrow> 'a promise" where
  "resolve v p = (case p of Pending \<Rightarrow> Resolved v | Resolved w \<Rightarrow> Resolved w | Rejected e \<Rightarrow> Rejected e)"

section \<open>The input box and its prompter\<close>

text \<open>
  A button's \<open>onClick\<close> receives the resolver. What the handler does is a change of
  the surroundings \<open>'env\<close> (its side effect) and the arguments of its calls of the
  resolver, in order: none when the click only does something, one or more when it
  settles the prompt.
\<close>

record 'env QuickInputButton =
  iconPath :: string
  tooltip :: "string option"
  onClick :: "'env \<Rightarrow> 'env \<times> string PromptResult list"

text \<open>The fields of \<open>TestInputBox\<close> in \<open>input.test.ts\<close>, with their initial values.\<close>

record 'env InputBox =
  "value" :: string
  placeholder :: "string option"
  password :: bool
  buttons :: "'env QuickInputButton list"
  prompt :: "string option"
  validationMessage :: "string option"
  title :: "string option"
  step :: "nat option"
  totalSteps :: "nat option"
  enabled :: bool
  busy :: bool
  ignoreFocusOut :: bool
  isShowing :: bool

definition TestInputBox_new :: "'env InputBox" where
  "TestInputBox_new =
     \<lparr> value = [], placeholder = None, password = False, buttons = [], prompt = None,
       validationMessage = None, title = None, step = None, totalSteps = None,
       enabled = True, busy = False, ignoreFocusOut = False, isShowing = False \<rparr>"

text \<open>The four events of an input box that a prompter listens to.\<close>

datatype 'env event =
    DidChangeValue string
  | DidAccept
  | DidHide
  | DidTriggerButton "'env QuickInputButton"

text \<open>A prompt in progress: the box, the promise that \<open>prompt()\<close> returned, and the
  surroundings the button handlers act on.\<close>

record 'env Prompting =
  box :: "'env InputBox"
  promise :: "string PromptResult promise"
  env :: "'env"

text \<open>
  Modelled from the spec: \<open>InputBoxPrompter\<close> lives in \<open>shared/ui/input\<close>, which is not
  among the files at hand; only its tests are. Following the spec, \<open>prompt()\<close> shows the
  box and returns a promise; accepting resolves it with the current text, hiding
  without accepting resolves it with cancel, and a button's handler is given the
  resolver. A value change has no listener here (no validation function is configured).
\<close>

definition InputBoxPrompter_prompt :: "'env \<Rightarrow> 'env InputBox \<Rightarrow> 'env Prompting" where
  "InputBoxPrompter_prompt e ib =
     \<lparr> box = ib\<lparr> isShowing := True \<rparr>, promise = Pending, env = e \<rparr>"

text \<open>
  Modelled from the spec: the listeners of \<open>InputBoxPrompter\<close> (\<open>shared/ui/input\<close>, not
  among the files at hand) on the four events. The resolver settles the promise; a
  handler's calls of it are made in order.
\<close>

fun fire :: "'env event \<Rightarrow> 'env Prompting \<Rightarrow> 'env Prompting" where
  "fire (DidChangeValue v) s = s\<lparr> box := (box s)\<lparr> value := v \<rparr> \<rparr>"
| "fire DidAccept s = s\<lparr> promise := resolve (Value (value (box s))) (promise s) \<rparr>"
| "fire DidHide s = s\<lparr> promise := resolve Cancel (promise s) \<rparr>"
| "fire (DidTriggerButton b) s =
     (let (e', calls) = onClick b (env s)
      in s\<lparr> promise := foldl (\<lambda>p r. resolve r p) (promise s) calls, env := e' \<rparr>)"

text \<open>
  Modelled from the spec: \<open>createBackButton\<close> is declared in \<open>shared/ui/buttons\<close>, not
  among the files at hand. It is the button whose click signals back.
\<close>

definition createBackButton :: "'env QuickInputButton" where
  "createBackButton = \<lparr> iconPath = ''back'', tooltip = Some ''Back'', onClick = (\<lambda>e. (e, [Back])) \<rparr>"

text \<open>
  The methods of \<open>TestInputBox\<close>, from the test file:
  \<^verbatim>\<open>
  public hide(): void { this.onDidHideEmitter.fire(); this.isShowing = false }
  public accept(value: string) { this.value = value; this.onDidAcceptEmitter.fire(); this.isShowing = false }
  public pressButton(button) { this.onDidTriggerButtonEmitter.fire(button) }
  \<close>
\<close>

definition TestInputBox_hide :: "'env Prompting \<Rightarrow> 'env Prompting" where
  "TestInputBox_hide s = (let s' = fire DidHide s in s'\<lparr> box := (box s')\<lparr> isShowing := False \<rparr> \<rparr>)"

definition TestInputBox_accept :: "string \<Rightarrow> 'env Prompting \<Rightarrow> 'env Prompting" where
  "TestInputBox_accept v s =
     (let s' = fire DidAccept (s\<lparr> box := (box s)\<lparr> value := v \<rparr> \<rparr>)
      in s'\<lparr> box := (box s')\<lparr> isShowing := False \<rparr> \<rparr>)"

definition TestInputBox_pressButton :: "'env QuickInputButton \<Rightarrow> 'env Prompting \<Rightarrow> 'env Prompting" where
  "TestInputBox_pressButton b s = fire (DidTriggerButton b) s"

text \<open>What a user can do with the box, and a whole session of it.\<close>

datatype 'env action =
    Type string
  | Accept string
  | Hide
  | Press "'env QuickInputButton"

fun act :: "'env action \<Rightarrow> 'env Prompting \<Rightarrow> 'env Prompting" where
  "act (Type v) s = fire (DidChangeValue v) s"
| "act (Accept v) s = TestInputBox_accept v s"
| "act Hide s = TestInputBox_hide s"
| "act (Press b) s = TestInputBox_pressButton b s"

definition session :: "'env action list \<Rightarrow> 'env Prompting \<Rightarrow> 'env Prompting" where
  "session acts s = foldl (\<lambda>t a. act a t) s acts"

section \<open>The search-pattern prompter\<close>

record CloudWatchLogsGroupInfo =
  groupName :: string
  regionName :: string

record CloudWatchLogsParameters =
  logFilterPattern :: "string option"

text \<open>
  \<open>retryState\<close> is typed \<open>any\<close>; the code reads \<open>validationMessage\<close> and reads and
  writes \<open>searchPattern\<close>. Either may be absent (\<open>{}\<close> at the start).
\<close>

record RetryState =
  searchPattern :: "string option"
  retryValidationMessage :: "string option"

record 'env SearchPatternPrompter =
  logGroup :: CloudWatchLogsGroupInfo
  logParams :: CloudWatchLogsParameters
  retryState :: RetryState
  inputBox :: "'env InputBox"

text \<open>
  The constructor:
  \<^verbatim>\<open>
  super(inputBox, options)
  this.inputBox.validationMessage = retryState.validationMessage ? retryState.validationMessage : undefined
  if (this.retryState.searchPattern) {
      this.inputBox.value = this.retryState.searchPattern
  }
  this.inputBox.onDidChangeValue(val => { this.inputBox.validationMessage = undefined })
  \<close>
  Both tests are truthiness tests: an absent and an empty string fail them.
\<close>

definition SearchPatternPrompter_new ::
  "CloudWatchLogsGroupInfo \<Rightarrow> CloudWatchLogsParameters \<Rightarrow> RetryState \<Rightarrow> 'env InputBox
     \<Rightarrow> 'env SearchPatternPrompter" where
  "SearchPatternPrompter_new lg lp rs ib =
     (let ib1 = ib\<lparr> validationMessage :=
                   (if truthyString (retryValidationMessage rs)
                    then retryValidationMessage rs else None) \<rparr>;
          ib2 = (case searchPattern rs of
                   Some p \<Rightarrow> if p \<noteq> [] then ib1\<lparr> value := p \<rparr> else ib1
                 | None \<Rightarrow> ib1)
      in \<lparr> logGroup = lg, logParams = lp, retryState = rs, inputBox = ib2 \<rparr>)"

text \<open>
  The events of the box as a search-pattern prompter sees them: the listeners of the
  base prompter, and the constructor's own listener on a value change, which clears
  the validation message.
\<close>

definition SearchPatternPrompter_fire :: "'env event \<Rightarrow> 'env Prompting \<Rightarrow> 'env Prompting" where
  "SearchPatternPrompter_fire ev s =
     (let s' = fire ev s
      in case ev of
           DidChangeValue v \<Rightarrow> s'\<lparr> box := (box s')\<lparr> validationMessage := None \<rparr> \<rparr>
         | DidAccept \<Rightarrow> s'
         | DidHide \<Rightarrow> s'
         | DidTriggerButton b \<Rightarrow> s')"

text \<open>The string held by a result, when it is a value.\<close>

fun valueOf :: "'a PromptResult \<Rightarrow> 'a option" where
  "valueOf (Value v) = Some v"
| "valueOf Back = None"
| "valueOf Cancel = None"

text \<open>
  \<open>promptUser\<close>:
  \<^verbatim>\<open>
  const rv = await super.promptUser()
  this.inputBox.busy = true
  try {
      if (isWizardControl(rv)) { return rv }
      this.retryState.searchPattern = isValidResponse(rv) ? rv : undefined
      return this.inputBox.value
  } finally {
      this.inputBox.busy = false
  }
  \<close>
  \<open>isWizardControl\<close> and \<open>isValidResponse\<close> come from \<open>shared/wizards/wizard\<close>, not among
  the files at hand: they are arguments here, and either may raise. The \<open>try\<close> block is
  \<open>validationPhase\<close>: it gives the states the prompter goes through inside the block
  (the state on entry first), the state it ends in, and how it ends.
\<close>

definition validationPhase ::
  "(string PromptResult \<Rightarrow> error + bool) \<Rightarrow> (string PromptResult \<Rightarrow> error + bool)
     \<Rightarrow> string PromptResult \<Rightarrow> 'env SearchPatternPrompter
     \<Rightarrow> 'env SearchPatternPrompter list \<times> 'env SearchPatternPrompter \<times> (error + string PromptResult)" where
  "validationPhase isWizardControl isValidResponse rv p =
     (case isWizardControl rv of
        Inl e \<Rightarrow> ([p], p, Inl e)
      | Inr True \<Rightarrow> ([p], p, Inr rv)
      | Inr False \<Rightarrow>
          (case isValidResponse rv of
             Inl e \<Rightarrow> ([p], p, Inl e)
           | Inr valid \<Rightarrow>
               (let p' = p\<lparr> retryState := (retryState p)
                              \<lparr> searchPattern := (if valid then valueOf rv else None) \<rparr> \<rparr>
                in ([p, p'], p', Inr (Value (value (inputBox p')))))))"

record 'env PromptUserRun =
  phase :: "'env SearchPatternPrompter list"
  final :: "'env SearchPatternPrompter"
  outcome :: "error + string PromptResult"

text \<open>\<open>superResult\<close> is how \<open>super.promptUser()\<close> settled: an error when it rejected.\<close>

definition SearchPatternPrompter_promptUser ::
  "(string PromptResult \<Rightarrow> error + bool) \<Rightarrow> (string PromptResult \<Rightarrow> error + bool)
     \<Rightarrow> error + string PromptResult \<Rightarrow> 'env SearchPatternPrompter \<Rightarrow> 'env PromptUserRun" where
  "SearchPatternPrompter_promptUser isWizardControl isValidResponse superResult p =
     (case superResult of
        Inl e \<Rightarrow> \<lparr> phase = [], final = p, outcome = Inl e \<rparr>
      | Inr rv \<Rightarrow>
          (let p1 = p\<lparr> inputBox := (inputBox p)\<lparr> busy := True \<rparr> \<rparr>;
               (states, p2, out) = validationPhase isWizardControl isValidResponse rv p1
           in \<lparr> phase = states,
                final = p2\<lparr> inputBox := (inputBox p2)\<lparr> busy := False \<rparr> \<rparr>,
                outcome = out \<rparr>))"

section \<open>Waiting for the Python debug adapter\<close>

definition PYTHON_DEBUG_ADAPTER_RETRY_DELAY_MS :: int where
  "PYTHON_DEBUG_ADAPTER_RETRY_DELAY_MS = 1000"

text \<open>
  \<open>timeoutDurationMillis\<close> is a JavaScript number: a finite value (taken here in whole
  milliseconds, exactly), one of the two infinities, or \<open>NaN\<close>. \<open>Date.now()\<close> is always
  finite. \<open>plusNumber\<close> is \<open>Date.now() + timeoutDurationMillis\<close> and \<open>greaterThanNumber\<close>
  is \<open>Date.now() > stopMillis\<close>: nothing finite is greater than \<open>Infinity\<close>, and every
  comparison with \<open>NaN\<close> is false.
\<close>

datatype number = Num int | Infinity | NegativeInfinity | NaN

fun plusNumber :: "int \<Rightarrow> number \<Rightarrow> number" where
  "plusNumber n (Num t) = Num (n + t)"
| "plusNumber n Infinity = Infinity"
| "plusNumber n NegativeInfinity = NegativeInfinity"
| "plusNumber n NaN = NaN"

fun greaterThanNumber :: "int \<Rightarrow> number \<Rightarrow> bool" where
  "greaterThanNumber n (Num s) = (n > s)"
| "greaterThanNumber n Infinity = False"
| "greaterThanNumber n NegativeInfinity = True"
| "greaterThanNumber n NaN = False"

text \<open>
  \<open>PythonDebugAdapterHeartbeat\<close> is not among the files at hand. One tester is what its
  three calls give: \<open>connect()\<close> and \<open>isDebugServerUp()\<close> each return a boolean or raise,
  and \<open>disconnect()\<close> returns or raises.
\<close>

record Heartbeat =
  connect :: "error + bool"
  isDebugServerUp :: "error + bool"
  disconnect :: "error option"

text \<open>
  One pass through the \<open>try\<close>/\<open>catch\<close>/\<open>finally\<close> of the loop body:
  \<^verbatim>\<open>
  try {
      if (await tester.connect()) {
          if (await tester.isDebugServerUp()) { debugServerAvailable = true }
      }
  } catch (err) { logger.verbose('Error while testing', err as Error) }
  finally { await tester.disconnect() }
  \<close>
  An error of the first two calls is caught and logged. An error of \<open>disconnect()\<close>
  escapes the block, and with it the function; otherwise the pass gives the value of
  \<open>debugServerAvailable\<close>.
\<close>

definition testDebugAdapter :: "Heartbeat \<Rightarrow> error + bool" where
  "testDebugAdapter tester =
     (let available =
            (case connect tester of
               Inl err \<Rightarrow> False
             | Inr False \<Rightarrow> False
             | Inr True \<Rightarrow>
                 (case isDebugServerUp tester of
                    Inl err \<Rightarrow> False
                  | Inr up \<Rightarrow> up))
      in case disconnect tester of
           Some err \<Rightarrow> Inl err
         | None \<Rightarrow> Inr available)"

text \<open>
  The retry loop. \<open>testers i\<close> is the tester made in pass \<open>i\<close>, and \<open>now i\<close> is what
  \<open>Date.now()\<close> returns in the timeout check of pass \<open>i\<close>. The loop may run forever
  (no tester ever succeeds and no reading is beyond \<open>stopMillis\<close>): not returning is
  \<open>None\<close>. It ends with the error of a \<open>disconnect()\<close>, or with \<open>debugServerAvailable\<close>
  and the number of the last pass.
\<close>

partial_function (option) retryLoop ::
  "(nat \<Rightarrow> Heartbeat) \<Rightarrow> (nat \<Rightarrow> int) \<Rightarrow> number \<Rightarrow> nat \<Rightarrow> (error + bool \<times> nat) option" where
  "retryLoop testers now stopMillis i =
     (case testDebugAdapter (testers i) of
        Inl err \<Rightarrow> Some (Inl err)
      | Inr available \<Rightarrow>
          if available then Some (Inr (True, i))
          else if greaterThanNumber (now i) stopMillis then Some (Inr (False, i))
          else retryLoop testers now stopMillis (Suc i))"

record WaitResult =
  debugServerAvailable :: bool
  passes :: nat
  channelWarnings :: "string list"

text \<open>\<open>startMillis\<close> is \<open>Date.now()\<close> on entry. The warning goes to the channel logger. The
  function is rejected with the error of a \<open>disconnect()\<close> (and then logs no warning).\<close>

definition waitForPythonDebugAdapter ::
  "nat \<Rightarrow> number \<Rightarrow> int \<Rightarrow> (nat \<Rightarrow> Heartbeat) \<Rightarrow> (nat \<Rightarrow> int) \<Rightarrow> (error + WaitResult) option" where
  "waitForPythonDebugAdapter debugPort timeoutDurationMillis startMillis testers now =
     (let stopMillis = plusNumber startMillis timeoutDurationMillis
      in case retryLoop testers now stopMillis 0 of
           None \<Rightarrow> None
         | Some (Inl err) \<Rightarrow> Some (Inl err)
         | Some (Inr (available, i)) \<Rightarrow>
             Some (Inr \<lparr> debugServerAvailable = available,
                    passes = Suc i,
                    channelWarnings =
                      (if \<not> available
                       then [''AWS.sam.local.invoke.python.server.not.available'']
                       else []) \<rparr>))"

text \<open>Two surroundings to run the function in: a debug adapter that never answers, and
  a clock that is read once a second.\<close>

definition deadAdapter :: "nat \<Rightarrow> Heartbeat" where
  "deadAdapter i = \<lparr> connect = Inr False, isDebugServerUp = Inr False, disconnect = None \<rparr>"

definition secondsClock :: "nat \<Rightarrow> int" where
  "secondsClock i = 1000 * int i"

section \<open>The wizard engine\<close>

text \<open>
  Modelled from the spec: \<open>Wizard\<close> (\<open>shared/wizards/wizard\<close>) is not among the files at
  hand; the engine below follows the transition algorithm of the spec's section 4.3.

  One entry of a form binds a field of the state \<open>'s\<close> to a prompter factory. The
  factory is given the current state; it returns a prompter, or nothing (skip the
  field), or it raises. A factory may also read what the wizard keeps beside the state
  and shares with its prompters (the \<open>retryState\<close> of \<open>TailLogGroupWizard\<close>): that is
  \<open>'w\<close>.
\<close>

record ('s, 'v, 'p, 'w) Binding =
  fieldPath :: string
  isResolved :: "'s \<Rightarrow> bool"
  store :: "'v \<Rightarrow> 's \<Rightarrow> 's"
  discard :: "'s \<Rightarrow> 's"
  factory :: "'w \<Rightarrow> 's \<Rightarrow> error + 'p option"

text \<open>
  Modelled from the spec (\<open>Wizard\<close> is not among the files at hand), step 2 of its
  transition algorithm: the next unresolved field, walking the form in declared order
  and skipping the fields whose factory returns nothing for the current state. A factory
  that raises ends the walk with its error.
\<close>

fun nextUnresolved ::
  "('s, 'v, 'p, 'w) Binding list \<Rightarrow> 'w \<Rightarrow> 's
     \<Rightarrow> error + (('s, 'v, 'p, 'w) Binding \<times> 'p) option" where
  "nextUnresolved [] shared st = Inr None"
| "nextUnresolved (b # bs) shared st =
     (if isResolved b st then nextUnresolved bs shared st
      else case factory b shared st of
             Inl e \<Rightarrow> Inl e
           | Inr None \<Rightarrow> nextUnresolved bs shared st
           | Inr (Some p) \<Rightarrow> Inr (Some (b, p)))"

text \<open>
  Modelled from the spec (\<open>Wizard\<close> is not among the files at hand), step 6 of its
  transition algorithm, the invalidation on back: the value of the field gone back to is
  discarded, and so is the value of every field after it in the order of the form.
\<close>

definition invalidateFrom :: "('s, 'v, 'p, 'w) Binding list \<Rightarrow> string \<Rightarrow> 's \<Rightarrow> 's" where
  "invalidateFrom form path st = fold discard (dropWhile (\<lambda>b. fieldPath b \<noteq> path) form) st"

text \<open>
  Modelled from the spec (\<open>Wizard\<close> is not among the files at hand): the states of the
  machine. A running wizard waits at the prompt of one field, with what it shares, its
  state and its history (the steps already answered). A wizard that is done has its
  result: the completed state, or nothing when the user exited. A wizard one of whose
  factories raised has failed with that error. (Before \<open>run()\<close> a wizard is not
  started; \<open>run()\<close> takes it to the first of the states below.)
\<close>

datatype ('s, 'v, 'p, 'w) WizardState =
    RUNNING 'w 's "(string \<times> 'p) list" "('s, 'v, 'p, 'w) Binding" 'p
  | DONE "'s option"
  | FAILED error

text \<open>
  Modelled from the spec (\<open>Wizard\<close> is not among the files at hand), steps 2 to 4: the
  walk decides the next state. No unresolved field: done, with the state. A prompter:
  the wizard waits at its prompt. A factory raised: failed.
\<close>

definition advance ::
  "('s, 'v, 'p, 'w) Binding list \<Rightarrow> 'w \<Rightarrow> 's \<Rightarrow> (string \<times> 'p) list
     \<Rightarrow> ('s, 'v, 'p, 'w) WizardState" where
  "advance form shared st history =
     (case nextUnresolved form shared st of
        Inl e \<Rightarrow> FAILED e
      | Inr None \<Rightarrow> DONE (Some st)
      | Inr (Some (b, p)) \<Rightarrow> RUNNING shared st history b p)"

text \<open>
  Modelled from the spec (\<open>Wizard\<close> is not among the files at hand), steps 4 to 7: what
  the result of the open prompt does. \<open>prompted p r\<close> is what prompting \<open>p\<close> with the
  result \<open>r\<close> does to what the wizard shares with its prompters. The step being prompted
  is pushed on the history before its prompt. A value is stored and the walk goes on. On
  cancel the wizard is done with nothing. On back the step is popped: the wizard is done
  with nothing when nothing is left below it, and otherwise the step below is popped as
  well, invalidated together with every later field, and prompted again. A wizard that is
  done or has failed has no prompt open, and stays as it is.
\<close>

fun answerPrompt ::
  "('s, 'v, 'p, 'w) Binding list \<Rightarrow> ('p \<Rightarrow> 'v PromptResult \<Rightarrow> 'w \<Rightarrow> 'w)
     \<Rightarrow> ('s, 'v, 'p, 'w) WizardState \<Rightarrow> 'v PromptResult \<Rightarrow> ('s, 'v, 'p, 'w) WizardState" where
  "answerPrompt form prompted (RUNNING shared st history b p) answer =
     (let shared' = prompted p answer shared;
          pushed = (fieldPath b, p) # history
      in case answer of
           Value v \<Rightarrow> advance form shared' (store b v st) pushed
         | Cancel \<Rightarrow> DONE None
         | Back \<Rightarrow>
             (case tl pushed of
                [] \<Rightarrow> DONE None
              | (prev, q) # older \<Rightarrow> advance form shared' (invalidateFrom form prev st) older))"
| "answerPrompt form prompted (DONE result) answer = DONE result"
| "answerPrompt form prompted (FAILED e) answer = FAILED e"

text \<open>
  Modelled from the spec (\<open>Wizard\<close> is not among the files at hand), step 1 and the loop:
  the state of the machine after the user's answers, the results of the prompts in the
  order they are shown. \<open>run()\<close> starts the walk on the initial state with an empty
  history.
\<close>

definition wizardAfter ::
  "('s, 'v, 'p, 'w) Binding list \<Rightarrow> ('p \<Rightarrow> 'v PromptResult \<Rightarrow> 'w \<Rightarrow> 'w) \<Rightarrow> 'w \<Rightarrow> 's
     \<Rightarrow> 'v PromptResult list \<Rightarrow> ('s, 'v, 'p, 'w) WizardState" where
  "wizardAfter form prompted shared initState answers =
     foldl (answerPrompt form prompted) (advance form shared initState []) answers"

text \<open>
  Modelled from the spec (\<open>Wizard\<close> is not among the files at hand): the promise of
  \<open>run()\<close>. It is pending while the wizard waits at a prompt, resolved with the result
  of a wizard that is done, and rejected with the error of one that has failed.
\<close>

definition Wizard_run ::
  "('s, 'v, 'p, 'w) Binding list \<Rightarrow> ('p \<Rightarrow> 'v PromptResult \<Rightarrow> 'w \<Rightarrow> 'w) \<Rightarrow> 'w \<Rightarrow> 's
     \<Rightarrow> 'v PromptResult list \<Rightarrow> 's option promise" where
  "Wizard_run form prompted shared initState answers =
     (case wizardAfter form prompted shared initState answers of
        RUNNING w st history b p \<Rightarrow> Pending
      | DONE result \<Rightarrow> Resolved result
      | FAILED e \<Rightarrow> Rejected e)"

text \<open>
  Modelled from the spec: \<open>isWizardControl\<close> and \<open>isValidResponse\<close> are declared in
  \<open>shared/wizards/wizard\<close>, not among the files at hand. Of the three results of a
  prompt, back and cancel are the control signals and a value is a valid response.
\<close>

fun isWizardControl :: "'a PromptResult \<Rightarrow> bool" where
  "isWizardControl (Value v) = False"
| "isWizardControl Back = True"
| "isWizardControl Cancel = True"

fun isValidResponse :: "'a PromptResult \<Rightarrow> bool" where
  "isValidResponse (Value v) = True"
| "isValidResponse Back = False"
| "isValidResponse Cancel = False"

section \<open>Tailing a log group\<close>

record RegionSubmenuResponse =
  data :: string
  region :: string

text \<open>The state of a \<open>TailLogGroupWizard\<close>: a \<open>TailLogGroupWizardResponse\<close> whose fields
  may still be absent.\<close>

record TailLogGroupWizardResponse =
  submenuResponse :: "RegionSubmenuResponse option"
  filterPattern :: "string option"

datatype TailFieldValue = SubmenuValue RegionSubmenuResponse | PatternValue string

text \<open>The two prompters of the wizard. A \<open>RegionSubmenu\<close> is known by the titles it is
  made with (\<open>createRegionSubmenu\<close>).\<close>

datatype TailPrompter =
    RegionSubmenu string string string
  | SearchPattern "string list SearchPatternPrompter"

definition createRegionSubmenu :: TailPrompter where
  "createRegionSubmenu =
     RegionSubmenu ''Select Log Group'' ''Select Region for Log Group'' ''Log Groups''"

text \<open>
  Modelled from the spec: \<open>createHelpButton\<close> and \<open>createExitButton\<close> are declared in
  \<open>shared/ui/buttons\<close>, not among the files at hand. The help button has a side effect
  only (it opens its link; the surroundings are the links opened so far), the exit
  button cancels.
\<close>

definition createHelpButton :: "string \<Rightarrow> string list QuickInputButton" where
  "createHelpButton uri =
     \<lparr> iconPath = ''help'', tooltip = Some ''View Toolkit Documentation'',
       onClick = (\<lambda>opened. (opened @ [uri], [])) \<rparr>"

definition createExitButton :: "'env QuickInputButton" where
  "createExitButton = \<lparr> iconPath = ''exit'', tooltip = Some ''Exit'', onClick = (\<lambda>e. (e, [Cancel])) \<rparr>"

text \<open>\<open>vscode.window.createInputBox()\<close>: an empty box that is not showing.\<close>

definition createInputBox :: "'env InputBox" where
  "createInputBox = TestInputBox_new"

text \<open>
  \<open>createSearchPatternPrompter\<close>. \<open>truncate\<close> is in \<open>textUtilities\<close>, not among the files
  at hand, and is the first argument; \<open>localize\<close> puts its argument in place of \<open>{0}\<close>.
\<close>

definition createSearchPatternPrompter ::
  "(string \<Rightarrow> int \<Rightarrow> string) \<Rightarrow> CloudWatchLogsGroupInfo \<Rightarrow> CloudWatchLogsParameters \<Rightarrow> RetryState
     \<Rightarrow> bool \<Rightarrow> string list SearchPatternPrompter" where
  "createSearchPatternPrompter truncateText lg lp rs isFirst =
     (let helpUri = ''https://docs.aws.amazon.com/AmazonCloudWatch/latest/logs/FilterAndPatternSyntax.html#matching-terms-events'';
          titleText = ''Search Log Group '' @ truncateText (groupName lg) (- 50);
          placeHolderText = ''search pattern (case sensitive; empty matches all)'';
          optionButtons = [createHelpButton helpUri, createExitButton];
          optionButtons' = (if \<not> isFirst then optionButtons @ [createBackButton] else optionButtons);
          ib = createInputBox
            \<lparr> title := Some titleText, placeholder := Some placeHolderText, buttons := optionButtons' \<rparr>
      in SearchPatternPrompter_new lg lp rs ib)"

text \<open>
  The factory bound to \<open>filterPattern\<close>:
  \<^verbatim>\<open>
  this.form.filterPattern.bindPrompter(state => {
      if (!state.submenuResponse) {
          throw Error('state.submenuResponse is null')
      }
      return createSearchPatternPrompter({ groupName: state.submenuResponse.data,
          regionName: state.submenuResponse.region }, { filterPattern: undefined },
          this.retryState, logGroupInfo ? true : false)
  })
  \<close>
  \<open>this.retryState\<close> is one object, shared by the wizard and every prompter this
  factory makes: \<open>shared\<close> is what it holds when the factory is evaluated.
\<close>

definition filterPatternPrompter ::
  "(string \<Rightarrow> int \<Rightarrow> string) \<Rightarrow> CloudWatchLogsGroupInfo option \<Rightarrow> RetryState
     \<Rightarrow> TailLogGroupWizardResponse \<Rightarrow> error + TailPrompter option" where
  "filterPatternPrompter truncateText logGroupInfo shared state =
     (case submenuResponse state of
        None \<Rightarrow> Inl (Error ''state.submenuResponse is null'')
      | Some sub \<Rightarrow>
          Inr (Some (SearchPattern
            (createSearchPatternPrompter truncateText
               \<lparr> groupName = data sub, regionName = region sub \<rparr>
               \<lparr> logFilterPattern = None \<rparr>
               shared
               (case logGroupInfo of Some g \<Rightarrow> True | None \<Rightarrow> False)))))"

text \<open>The constructor of \<open>TailLogGroupWizard\<close>: the initial state, the retry state
  (\<open>{}\<close> at first) and the two bindings, in the order they are made.\<close>

definition TailLogGroupWizard_retryState :: RetryState where
  "TailLogGroupWizard_retryState = \<lparr> searchPattern = None, retryValidationMessage = None \<rparr>"

definition TailLogGroupWizard_initState ::
  "CloudWatchLogsGroupInfo option \<Rightarrow> TailLogGroupWizardResponse" where
  "TailLogGroupWizard_initState logGroupInfo =
     \<lparr> submenuResponse =
         (case logGroupInfo of
            Some g \<Rightarrow> Some \<lparr> data = groupName g, region = regionName g \<rparr>
          | None \<Rightarrow> None),
       filterPattern = None \<rparr>"

definition submenuResponseBinding ::
  "(TailLogGroupWizardResponse, TailFieldValue, TailPrompter, RetryState) Binding" where
  "submenuResponseBinding =
     \<lparr> fieldPath = ''submenuResponse'',
       isResolved = (\<lambda>st. case submenuResponse st of Some r \<Rightarrow> True | None \<Rightarrow> False),
       store = (\<lambda>v st. case v of SubmenuValue r \<Rightarrow> st\<lparr> submenuResponse := Some r \<rparr>
                               | PatternValue s \<Rightarrow> st),
       discard = (\<lambda>st. st\<lparr> submenuResponse := None \<rparr>),
       factory = (\<lambda>shared st. Inr (Some createRegionSubmenu)) \<rparr>"

definition filterPatternBinding ::
  "(string \<Rightarrow> int \<Rightarrow> string) \<Rightarrow> CloudWatchLogsGroupInfo option
     \<Rightarrow> (TailLogGroupWizardResponse, TailFieldValue, TailPrompter, RetryState) Binding" where
  "filterPatternBinding truncateText logGroupInfo =
     \<lparr> fieldPath = ''filterPattern'',
       isResolved = (\<lambda>st. case filterPattern st of Some r \<Rightarrow> True | None \<Rightarrow> False),
       store = (\<lambda>v st. case v of PatternValue s \<Rightarrow> st\<lparr> filterPattern := Some s \<rparr>
                               | SubmenuValue r \<Rightarrow> st),
       discard = (\<lambda>st. st\<lparr> filterPattern := None \<rparr>),
       factory = filterPatternPrompter truncateText logGroupInfo \<rparr>"

definition TailLogGroupWizard_form ::
  "(string \<Rightarrow> int \<Rightarrow> string) \<Rightarrow> CloudWatchLogsGroupInfo option
     \<Rightarrow> (TailLogGroupWizardResponse, TailFieldValue, TailPrompter, RetryState) Binding list" where
  "TailLogGroupWizard_form truncateText logGroupInfo =
     [submenuResponseBinding, filterPatternBinding truncateText logGroupInfo]"

text \<open>
  What prompting does to the shared retry state. A region submenu leaves it alone. A
  search-pattern prompter works on the shared object: its \<open>promptUser\<close> records the
  pattern unless the result is a control signal. (A result of the other field's kind
  cannot come from this prompter and changes nothing.)
\<close>

fun searchPatternResult :: "TailFieldValue PromptResult \<Rightarrow> string PromptResult option" where
  "searchPatternResult (Value (PatternValue s)) = Some (Value s)"
| "searchPatternResult (Value (SubmenuValue r)) = None"
| "searchPatternResult Back = Some Back"
| "searchPatternResult Cancel = Some Cancel"

definition TailLogGroupWizard_prompted ::
  "TailPrompter \<Rightarrow> TailFieldValue PromptResult \<Rightarrow> RetryState \<Rightarrow> RetryState" where
  "TailLogGroupWizard_prompted p answer shared =
     (case p of
        RegionSubmenu groupTitle regionTitle label \<Rightarrow> shared
      | SearchPattern prompter \<Rightarrow>
          (case searchPatternResult answer of
             None \<Rightarrow> shared
           | Some rv \<Rightarrow>
               retryState (final (SearchPatternPrompter_promptUser
                 (\<lambda>r. Inr (isWizardControl r)) (\<lambda>r. Inr (isValidResponse r)) (Inr rv)
                 (prompter\<lparr> retryState := shared \<rparr>)))))"

text \<open>What the editor does with the two calls of \<open>prepareDocument\<close>: each returns, or
  raises the given error.\<close>

record Editor =
  openTextDocument :: "error option"
  showTextDocument :: "error option"

record TextDocument =
  uri :: string
  languageId :: string

text \<open>
  \<^verbatim>\<open>
  try {
      const textDocument = await vscode.workspace.openTextDocument(uri)
      await vscode.window.showTextDocument(textDocument, { preview: false })
      vscode.languages.setTextDocumentLanguage(textDocument, 'json')
      return textDocument
  } catch (err) {
      if (CancellationError.isUserCancelled(err)) { throw err }
      throw ToolkitError.chain(err, localize(..., 'Failed to get logs for {0}', uri.toString()))
  }
  \<close>
  \<open>CancellationError.isUserCancelled\<close> is in \<open>timeoutUtils\<close>, not among the files at hand:
  it is the first argument.
\<close>

definition prepareDocumentFailure :: "(error \<Rightarrow> bool) \<Rightarrow> string \<Rightarrow> error \<Rightarrow> error" where
  "prepareDocumentFailure isUserCancelled uriText err =
     (if isUserCancelled err then err
      else ToolkitError (''Failed to get logs for '' @ uriText) err)"

definition prepareDocument :: "(error \<Rightarrow> bool) \<Rightarrow> Editor \<Rightarrow> string \<Rightarrow> error + TextDocument" where
  "prepareDocument isUserCancelled editor uriText =
     (case openTextDocument editor of
        Some err \<Rightarrow> Inl (prepareDocumentFailure isUserCancelled uriText err)
      | None \<Rightarrow>
          (case showTextDocument editor of
             Some err \<Rightarrow> Inl (prepareDocumentFailure isUserCancelled uriText err)
           | None \<Rightarrow> Inr \<lparr> uri = uriText, languageId = ''json'' \<rparr>))"

record LogData = CloudWatchLogsGroupInfo +
  groupArn :: string

record StartLiveTailCommand =
  logGroupIdentifiers :: "string list"
  logEventFilterPattern :: "string option"

record LiveTail =
  textDocument :: TextDocument
  command :: StartLiveTailCommand

text \<open>
  \<open>tailLogGroup\<close> from the point where \<open>await wizard.run()\<close> has given \<open>response\<close>.
  \<open>createURIFromArgs\<close> (\<open>cloudWatchLogsUtils\<close>) is not among the files at hand and is the
  second argument, giving the text of the URI; the first is \<open>isUserCancelled\<close>. Reading a property of \<open>undefined\<close> is a
  \<open>TypeError\<close>: \<open>response.submenuResponse.data\<close> when the field is absent, and
  \<open>formatGroupArn(logData?.groupArn!)\<close> when \<open>logData\<close> is. What happens to the command
  once it is sent is caught and logged, so the function then returns.
\<close>

definition tailLogGroup_afterRun ::
  "(error \<Rightarrow> bool) \<Rightarrow> (CloudWatchLogsGroupInfo \<Rightarrow> string) \<Rightarrow> Editor \<Rightarrow> LogData option
     \<Rightarrow> TailLogGroupWizardResponse option \<Rightarrow> error + LiveTail" where
  "tailLogGroup_afterRun isUserCancelled createURIFromArgs editor logData response =
     (case response of
        None \<Rightarrow> Inl (CancellationError ''user'')
      | Some resp \<Rightarrow>
          (case submenuResponse resp of
             None \<Rightarrow> Inl (TypeError ''Cannot read properties of undefined'')
           | Some sub \<Rightarrow>
               (let logGroupInfo = \<lparr> groupName = data sub, regionName = region sub \<rparr>;
                    uriText = createURIFromArgs logGroupInfo
                in case prepareDocument isUserCancelled editor uriText of
                     Inl err \<Rightarrow> Inl err
                   | Inr doc \<Rightarrow>
                       (case logData of
                          None \<Rightarrow> Inl (TypeError ''Cannot read properties of undefined'')
                        | Some ld \<Rightarrow>
                            Inr \<lparr> textDocument = doc,
                                  command =
                                    \<lparr> logGroupIdentifiers = [formatGroupArn (groupArn ld)],
                                      logEventFilterPattern = filterPattern resp \<rparr> \<rparr>))))"

text \<open>The whole of \<open>tailLogGroup\<close>: the wizard is made from \<open>logData\<close> and run against the
  user's answers; a pending or rejected \<open>run()\<close> leaves \<open>tailLogGroup\<close> pending or
  rejected.\<close>

definition tailLogGroup ::
  "(error \<Rightarrow> bool) \<Rightarrow> (string \<Rightarrow> int \<Rightarrow> string) \<Rightarrow> (CloudWatchLogsGroupInfo \<Rightarrow> string)
     \<Rightarrow> Editor \<Rightarrow> string \<Rightarrow> LogData option \<Rightarrow> TailFieldValue PromptResult list
     \<Rightarrow> LiveTail promise" where
  "tailLogGroup isUserCancelled truncateText createURIFromArgs editor source logData answers =
     (let logGroupInfo =
            (case logData of
               Some ld \<Rightarrow> Some \<lparr> groupName = groupName ld, regionName = regionName ld \<rparr>
             | None \<Rightarrow> None)
      in case Wizard_run (TailLogGroupWizard_form truncateText logGroupInfo)
                TailLogGroupWizard_prompted TailLogGroupWizard_retryState
                (TailLogGroupWizard_initState logGroupInfo) answers of
           Pending \<Rightarrow> Pending
         | Rejected e \<Rightarrow> Rejected e
         | Resolved response \<Rightarrow>
             (case tailLogGroup_afterRun isUserCancelled createURIFromArgs editor logData
                     response of
                Inl e \<Rightarrow> Rejected e
              | Inr tail \<Rightarrow> Resolved tail))"

section \<open>Properties\<close>

lemma endsWith_append: "endsWith (r @ t) t"
  by (simp add: endsWith_def)

lemma endsWith_decompose: "endsWith s t \<Longrightarrow> \<exists>r. s = r @ t"
proof -
  assume "endsWith s t"
  then have "drop (length s - length t) s = t" by (simp add: endsWith_def)
  then have "s = take (length s - length t) s @ t"
    by (metis append_take_drop_id)
  then show ?thesis ..
qed

lemma substring_prefix: "0 \<le> k \<Longrightarrow> k \<le> int (length s) \<Longrightarrow> substring s 0 k = take (nat k) s"
  by (simp add: substring_def Let_def min_def max_def)

lemma formatGroupArn_append: "formatGroupArn (r @ '':*'') = r"
proof -
  have "substring (r @ '':*'') 0 (int (length (r @ '':*'')) - 2) =
        take (nat (int (length (r @ '':*'')) - 2)) (r @ '':*'')"
    by (rule substring_prefix) simp_all
  also have "nat (int (length (r @ '':*'')) - 2) = length r" by simp
  finally show ?thesis by (simp add: formatGroupArn_def endsWith_append)
qed

text \<open>
  C9. \<open>formatGroupArn s\<close> is \<open>s\<close> without its last two characters when \<open>s\<close> ends with
  \<open>:*\<close> (the result followed by \<open>:*\<close> is \<open>s\<close> again), and \<open>s\<close> itself otherwise; the result
  ends with \<open>:*\<close> only when \<open>s\<close> ended with \<open>:*:*\<close>.
\<close>

theorem formatGroupArn_spec:
  "(endsWith s '':*'' \<longrightarrow>
      formatGroupArn s = take (length s - 2) s \<and> formatGroupArn s @ '':*'' = s) \<and>
   (\<not> endsWith s '':*'' \<longrightarrow> formatGroupArn s = s) \<and>
   (endsWith (formatGroupArn s) '':*'' \<longrightarrow> endsWith s '':*:*'')"
proof (intro conjI impI)
  assume "endsWith s '':*''"
  then obtain r where s: "s = r @ '':*''" using endsWith_decompose by blast
  show "formatGroupArn s = take (length s - 2) s"
    unfolding s formatGroupArn_append by simp
  show "formatGroupArn s @ '':*'' = s"
    unfolding s formatGroupArn_append by (rule refl)
next
  assume "\<not> endsWith s '':*''"
  then show "formatGroupArn s = s" by (simp add: formatGroupArn_def)
next
  assume r: "endsWith (formatGroupArn s) '':*''"
  show "endsWith s '':*:*''"
  proof (cases "endsWith s '':*''")
    case True
    then obtain p where s: "s = p @ '':*''" using endsWith_decompose by blast
    from r have "endsWith p '':*''" unfolding s formatGroupArn_append .
    then obtain q where "p = q @ '':*''" using endsWith_decompose by blast
    with s have "s = q @ '':*:*''" by simp
    then show ?thesis using endsWith_append [of q "'':*:*''"] by simp
  next
    case False
    with r show ?thesis by (simp add: formatGroupArn_def)
  qed
qed

theorem formatGroupArn_spec_witness:
  "endsWith ''arn:aws:logs:g:*:*'' '':*'' \<and>
   formatGroupArn ''arn:aws:logs:g:*:*'' = ''arn:aws:logs:g:*'' \<and>
   endsWith (formatGroupArn ''arn:aws:logs:g:*:*'') '':*'' \<and>
   endsWith ''arn:aws:logs:g:*:*'' '':*:*'' \<and>
   \<not> endsWith ''arn:aws:logs:g'' '':*'' \<and>
   formatGroupArn ''arn:aws:logs:g'' = ''arn:aws:logs:g''"
  using formatGroupArn_spec [of "''arn:aws:logs:g:*:*''"]
        formatGroupArn_spec [of "''arn:aws:logs:g''"]
  by (simp add: endsWith_def)

text \<open>
  C10. Whatever the folder, runtime name, resource name, template path and preloaded
  configuration, the configuration built by \<open>createTemplateAwsSamDebugConfig\<close> has type
  \<open>aws-sam\<close>, request \<open>direct-invoke\<close> and invoke target \<open>template\<close>, so both guards
  accept it; without a preloaded configuration it has neither a \<open>lambda\<close> nor a \<open>sam\<close>
  property.
\<close>

theorem createTemplateAwsSamDebugConfig_shape:
  "type (createTemplateAwsSamDebugConfig rel folder runtimeName resourceName templatePath pc)
     = ''aws-sam'' \<and>
   request (createTemplateAwsSamDebugConfig rel folder runtimeName resourceName templatePath pc)
     = ''direct-invoke'' \<and>
   target (invokeTarget
     (createTemplateAwsSamDebugConfig rel folder runtimeName resourceName templatePath pc))
     = ''template'' \<and>
   isAwsSamDebugConfiguration
     (createTemplateAwsSamDebugConfig rel folder runtimeName resourceName templatePath pc) \<and>
   isTemplateTargetProperties (invokeTarget
     (createTemplateAwsSamDebugConfig rel folder runtimeName resourceName templatePath pc)) \<and>
   lambda (createTemplateAwsSamDebugConfig rel folder runtimeName resourceName templatePath None)
     = Missing \<and>
   sam (createTemplateAwsSamDebugConfig rel folder runtimeName resourceName templatePath None)
     = Missing"
  by (cases pc)
     (simp_all add: createTemplateAwsSamDebugConfig_def Let_def isAwsSamDebugConfiguration_def
        isTemplateTargetProperties_def AWS_SAM_DEBUG_TYPE_def DIRECT_INVOKE_TYPE_def
        TEMPLATE_TARGET_TYPE_def)

theorem createTemplateAwsSamDebugConfig_shape_witness:
  "isAwsSamDebugConfiguration
     (createTemplateAwsSamDebugConfig (\<lambda>base path. path) None (Some ''python3.8'') ''Fn''
        ''template.yaml''
        (Some \<lparr> eventJson = Some (1::nat), environmentVariables = None,
                 dockerNetwork = None, useContainer = Some True \<rparr>)) \<and>
   isTemplateTargetProperties (invokeTarget
     (createTemplateAwsSamDebugConfig (\<lambda>base path. path) None (Some ''python3.8'') ''Fn''
        ''template.yaml''
        (Some \<lparr> eventJson = Some (1::nat), environmentVariables = None,
                 dockerNetwork = None, useContainer = Some True \<rparr>))) \<and>
   lambda
     (createTemplateAwsSamDebugConfig (\<lambda>base path. path) None (Some ''python3.8'') ''Fn''
        ''template.yaml''
        (Some \<lparr> eventJson = Some (1::nat), environmentVariables = None,
                 dockerNetwork = None, useContainer = Some True \<rparr>))
     = Defined \<lparr> event = Some \<lparr> json = 1 \<rparr>, lambdaEnvironmentVariables = None \<rparr> \<and>
   sam
     (createTemplateAwsSamDebugConfig (\<lambda>base path. path) None (Some ''python3.8'') ''Fn''
        ''template.yaml'' (None :: nat PreloadedConfig option))
     = Missing"
  using createTemplateAwsSamDebugConfig_shape [of "\<lambda>base path. path" None "Some ''python3.8''"
      "''Fn''" "''template.yaml''"
      "Some \<lparr> eventJson = Some (1::nat), environmentVariables = None,
               dockerNetwork = None, useContainer = Some True \<rparr>"]
  by (simp add: createTemplateAwsSamDebugConfig_def Let_def)

subsection \<open>The input-box prompter\<close>

lemma resolve_Pending [simp]: "resolve v Pending = Resolved v"
  by (simp add: resolve_def)

lemma resolve_settled: "p \<noteq> Pending \<Longrightarrow> resolve v p = p"
  by (cases p) (simp_all add: resolve_def)

lemma resolve_Rejected_iff: "resolve v p = Rejected x \<longleftrightarrow> p = Rejected x"
  by (cases p) (simp_all add: resolve_def)

lemma resolve_all_settled: "p \<noteq> Pending \<Longrightarrow> foldl (\<lambda>q r. resolve r q) p calls = p"
  by (induction calls) (simp_all add: resolve_settled)

lemma resolve_all_first: "foldl (\<lambda>q r. resolve r q) Pending (v # rest) = Resolved v"
  by (simp add: resolve_all_settled)

lemma resolve_all_Rejected_iff: "foldl (\<lambda>q r. resolve r q) p calls = Rejected x \<longleftrightarrow> p = Rejected x"
  by (induction calls arbitrary: p) (simp_all add: resolve_Rejected_iff)

lemma fire_Rejected_iff: "promise (fire ev s) = Rejected x \<longleftrightarrow> promise s = Rejected x"
  by (cases ev) (simp_all add: resolve_Rejected_iff resolve_all_Rejected_iff split: prod.splits)

lemma act_Rejected_iff: "promise (act a s) = Rejected x \<longleftrightarrow> promise s = Rejected x"
  by (cases a)
     (simp_all add: TestInputBox_accept_def TestInputBox_hide_def TestInputBox_pressButton_def
        Let_def fire_Rejected_iff del: fire.simps)

lemma session_Rejected_iff: "promise (session acts s) = Rejected x \<longleftrightarrow> promise s = Rejected x"
  unfolding session_def by (induction acts arbitrary: s) (simp_all add: act_Rejected_iff)

text \<open>
  C1. Dismissing the input box without accepting resolves the promise of \<open>prompt()\<close>
  with the cancel signal: right after \<open>prompt()\<close>, and from any state in which the
  promise is still pending. No sequence of user actions ever leaves the promise rejected.
\<close>

theorem hide_resolves_cancel:
  "promise (TestInputBox_hide (InputBoxPrompter_prompt e ib)) = Resolved Cancel \<and>
   (promise s = Pending \<longrightarrow> promise (TestInputBox_hide s) = Resolved Cancel) \<and>
   (\<forall>acts x. promise (session acts (InputBoxPrompter_prompt e ib)) \<noteq> Rejected x)"
  by (simp add: TestInputBox_hide_def InputBoxPrompter_prompt_def Let_def session_Rejected_iff)

theorem hide_resolves_cancel_witness:
  "promise (session [Type ''abc'', Press \<lparr> iconPath = [], tooltip = None, onClick = (\<lambda>e. (True, [])) \<rparr>]
      (InputBoxPrompter_prompt False TestInputBox_new)) = Pending \<and>
   promise (TestInputBox_hide
     (session [Type ''abc'', Press \<lparr> iconPath = [], tooltip = None, onClick = (\<lambda>e. (True, [])) \<rparr>]
        (InputBoxPrompter_prompt False TestInputBox_new))) = Resolved Cancel"
  using hide_resolves_cancel [of False TestInputBox_new
      "session [Type ''abc'', Press \<lparr> iconPath = [], tooltip = None, onClick = (\<lambda>e. (True, [])) \<rparr>]
         (InputBoxPrompter_prompt False TestInputBox_new)"]
  by (simp add: session_def TestInputBox_pressButton_def InputBoxPrompter_prompt_def)

text \<open>
  C2. When the input box carries a back button and the prompt is pending, pressing that
  button resolves \<open>prompt()\<close> with the back signal, not with cancel and not with a
  value.
\<close>

theorem back_button_resolves_back:
  assumes "createBackButton \<in> set (buttons (box s))" and "promise s = Pending"
  shows "promise (TestInputBox_pressButton createBackButton s) = Resolved Back \<and>
         promise (TestInputBox_pressButton createBackButton s) \<noteq> Resolved Cancel \<and>
         (\<forall>v. promise (TestInputBox_pressButton createBackButton s) \<noteq> Resolved (Value v))"
  using assms by (simp add: TestInputBox_pressButton_def createBackButton_def)

theorem back_button_resolves_back_witness:
  "createBackButton \<in> set (buttons (box
      (InputBoxPrompter_prompt () (TestInputBox_new\<lparr> buttons := [createBackButton] \<rparr>)))) \<and>
   promise (InputBoxPrompter_prompt () (TestInputBox_new\<lparr> buttons := [createBackButton] \<rparr>)) = Pending \<and>
   promise (TestInputBox_pressButton createBackButton
      (InputBoxPrompter_prompt () (TestInputBox_new\<lparr> buttons := [createBackButton] \<rparr>))) = Resolved Back"
  using back_button_resolves_back
    [of "InputBoxPrompter_prompt () (TestInputBox_new\<lparr> buttons := [createBackButton] \<rparr>)"]
  by (simp add: InputBoxPrompter_prompt_def)

text \<open>
  C3. A button whose handler calls the resolver with \<open>v\<close> (first) resolves the pending
  prompt with exactly \<open>v\<close>. A button whose handler only has a side effect and never
  calls the resolver leaves the promise as it was and the box untouched: right after
  \<open>prompt()\<close> the promise is still pending and the box is still showing.
\<close>

theorem button_handler_contract:
  "(promise s = Pending \<and> onClick b (env s) = (e', v # rest) \<longrightarrow>
      promise (TestInputBox_pressButton b s) = Resolved v) \<and>
   (onClick b (env s) = (e', []) \<longrightarrow>
      promise (TestInputBox_pressButton b s) = promise s \<and>
      box (TestInputBox_pressButton b s) = box s \<and>
      env (TestInputBox_pressButton b s) = e') \<and>
   (onClick b e = (e', []) \<longrightarrow>
      promise (TestInputBox_pressButton b (InputBoxPrompter_prompt e ib)) = Pending \<and>
      isShowing (box (TestInputBox_pressButton b (InputBoxPrompter_prompt e ib))))"
  by (simp add: TestInputBox_pressButton_def InputBoxPrompter_prompt_def resolve_all_settled)

theorem button_handler_contract_witness:
  "promise (InputBoxPrompter_prompt False
      (TestInputBox_new\<lparr> buttons := [\<lparr> iconPath = [], tooltip = None,
          onClick = (\<lambda>e. (e, [Value ''hello world''])) \<rparr>] \<rparr>)) = Pending \<and>
   promise (TestInputBox_pressButton
      \<lparr> iconPath = [], tooltip = None, onClick = (\<lambda>e. (e, [Value ''hello world''])) \<rparr>
      (InputBoxPrompter_prompt False
        (TestInputBox_new\<lparr> buttons := [\<lparr> iconPath = [], tooltip = None,
          onClick = (\<lambda>e. (e, [Value ''hello world''])) \<rparr>] \<rparr>))) = Resolved (Value ''hello world'') \<and>
   promise (TestInputBox_pressButton
      \<lparr> iconPath = [], tooltip = None, onClick = (\<lambda>e. (True, [])) \<rparr>
      (InputBoxPrompter_prompt False TestInputBox_new)) = Pending \<and>
   isShowing (box (TestInputBox_pressButton
      \<lparr> iconPath = [], tooltip = None, onClick = (\<lambda>e. (True, [])) \<rparr>
      (InputBoxPrompter_prompt False TestInputBox_new))) \<and>
   env (TestInputBox_pressButton
      \<lparr> iconPath = [], tooltip = None, onClick = (\<lambda>e. (True, [])) \<rparr>
      (InputBoxPrompter_prompt False TestInputBox_new))"
  using button_handler_contract
    [of "InputBoxPrompter_prompt False
      (TestInputBox_new\<lparr> buttons := [\<lparr> iconPath = [], tooltip = None,
          onClick = (\<lambda>e. (e, [Value ''hello world''])) \<rparr>] \<rparr>)"
      "\<lparr> iconPath = [], tooltip = None, onClick = (\<lambda>e. (e, [Value ''hello world''])) \<rparr>"
      False "Value ''hello world''" "[]"]
    button_handler_contract
    [of "InputBoxPrompter_prompt False TestInputBox_new"
      "\<lparr> iconPath = [], tooltip = None, onClick = (\<lambda>e. (True, [])) \<rparr>"
      True _ _ False TestInputBox_new]
  by (simp add: InputBoxPrompter_prompt_def)

subsection \<open>The search-pattern prompter\<close>

text \<open>
  C6. A \<open>SearchPatternPrompter\<close> built on a \<open>retryState\<close> that records a search pattern
  \<open>p\<close> and a validation message \<open>m\<close> shows them again: the value of the input box is
  \<open>p\<close> and its validation message is \<open>m\<close>. The constructor tests both for truthiness,
  so a recorded message is a non-empty one, and an empty recorded pattern is shown by a
  box whose value is empty (as a newly created box is). A value change, whatever the
  new value, clears the validation message; the other events of the box leave it as it
  is.
\<close>

theorem SearchPatternPrompter_redisplay:
  fixes ib :: "'env InputBox" and s :: "'env Prompting"
  assumes "searchPattern rs = Some p" and "retryValidationMessage rs = Some m"
    and "m \<noteq> []" and "p \<noteq> [] \<or> value ib = []"
  shows "value (inputBox (SearchPatternPrompter_new lg lp rs ib)) = p \<and>
         validationMessage (inputBox (SearchPatternPrompter_new lg lp rs ib)) = Some m \<and>
         validationMessage (box (SearchPatternPrompter_fire (DidChangeValue v) s)) = None \<and>
         ((\<forall>w. ev \<noteq> DidChangeValue w) \<longrightarrow>
            validationMessage (box (SearchPatternPrompter_fire ev s)) = validationMessage (box s))"
proof (intro conjI impI)
  show "value (inputBox (SearchPatternPrompter_new lg lp rs ib)) = p"
    using assms by (auto simp: SearchPatternPrompter_new_def Let_def)
  show "validationMessage (inputBox (SearchPatternPrompter_new lg lp rs ib)) = Some m"
    using assms by (simp add: SearchPatternPrompter_new_def Let_def truthyString_def)
  show "validationMessage (box (SearchPatternPrompter_fire (DidChangeValue v) s)) = None"
    by (simp add: SearchPatternPrompter_fire_def)
next
  assume "\<forall>w. ev \<noteq> DidChangeValue w"
  then show "validationMessage (box (SearchPatternPrompter_fire ev s)) = validationMessage (box s)"
    by (cases ev) (simp_all add: SearchPatternPrompter_fire_def Let_def split: prod.splits)
qed

theorem SearchPatternPrompter_redisplay_witness:
  "value (inputBox (SearchPatternPrompter_new \<lparr> groupName = ''g'', regionName = ''us-east-1'' \<rparr>
      \<lparr> logFilterPattern = None \<rparr>
      \<lparr> searchPattern = Some ''[bad'', retryValidationMessage = Some ''Invalid pattern'' \<rparr>
      (TestInputBox_new :: unit InputBox))) = ''[bad'' \<and>
   validationMessage (inputBox (SearchPatternPrompter_new \<lparr> groupName = ''g'', regionName = ''us-east-1'' \<rparr>
      \<lparr> logFilterPattern = None \<rparr>
      \<lparr> searchPattern = Some ''[bad'', retryValidationMessage = Some ''Invalid pattern'' \<rparr>
      (TestInputBox_new :: unit InputBox))) = Some ''Invalid pattern'' \<and>
   validationMessage (box (SearchPatternPrompter_fire (DidChangeValue ''[bad]'')
      (InputBoxPrompter_prompt ()
         (inputBox (SearchPatternPrompter_new \<lparr> groupName = ''g'', regionName = ''us-east-1'' \<rparr>
            \<lparr> logFilterPattern = None \<rparr>
            \<lparr> searchPattern = Some ''[bad'', retryValidationMessage = Some ''Invalid pattern'' \<rparr>
            TestInputBox_new))))) = None \<and>
   validationMessage (box (SearchPatternPrompter_fire DidAccept
      (InputBoxPrompter_prompt ()
         (inputBox (SearchPatternPrompter_new \<lparr> groupName = ''g'', regionName = ''us-east-1'' \<rparr>
            \<lparr> logFilterPattern = None \<rparr>
            \<lparr> searchPattern = Some ''[bad'', retryValidationMessage = Some ''Invalid pattern'' \<rparr>
            TestInputBox_new))))) = Some ''Invalid pattern''"
  using SearchPatternPrompter_redisplay [where
      rs = "\<lparr> searchPattern = Some ''[bad'', retryValidationMessage = Some ''Invalid pattern'' \<rparr>"
      and p = "''[bad''" and m = "''Invalid pattern''" and ib = "TestInputBox_new :: unit InputBox"
      and lg = "\<lparr> groupName = ''g'', regionName = ''us-east-1'' \<rparr>"
      and lp = "\<lparr> logFilterPattern = None \<rparr>"
      and v = "''[bad]''" and ev = DidAccept
      and s = "InputBoxPrompter_prompt ()
         (inputBox (SearchPatternPrompter_new \<lparr> groupName = ''g'', regionName = ''us-east-1'' \<rparr>
            \<lparr> logFilterPattern = None \<rparr>
            \<lparr> searchPattern = Some ''[bad'', retryValidationMessage = Some ''Invalid pattern'' \<rparr>
            TestInputBox_new))"]
  by (simp add: InputBoxPrompter_prompt_def)

subsection \<open>The busy flag around the validation phase\<close>

lemma validationPhase_busy:
  assumes "validationPhase c v rv p = (states, q, out)"
  shows "states \<noteq> [] \<and> (\<forall>t \<in> set states. inputBox t = inputBox p) \<and> inputBox q = inputBox p"
  using assms
  by (auto simp: validationPhase_def Let_def split: sum.splits bool.splits)

text \<open>
  C7. Once \<open>super.promptUser()\<close> has resolved, whatever it resolved with and however
  \<open>isWizardControl\<close> and \<open>isValidResponse\<close> behave: the \<open>busy\<close> flag of the input box is
  true in every state of the validation phase (and there is one), and false in the state
  \<open>promptUser\<close> ends in. This covers each way out: the result is a wizard control signal
  (returned as it is), it is a valid value (the text of the box is returned), and an
  exception escapes the phase (it is the outcome).
\<close>

theorem promptUser_busy:
  "phase (SearchPatternPrompter_promptUser c v (Inr rv) p) \<noteq> [] \<and>
   (\<forall>t \<in> set (phase (SearchPatternPrompter_promptUser c v (Inr rv) p)). busy (inputBox t)) \<and>
   \<not> busy (inputBox (final (SearchPatternPrompter_promptUser c v (Inr rv) p))) \<and>
   (c rv = Inr True \<longrightarrow> outcome (SearchPatternPrompter_promptUser c v (Inr rv) p) = Inr rv) \<and>
   (c rv = Inr False \<and> v rv = Inr True \<longrightarrow>
      outcome (SearchPatternPrompter_promptUser c v (Inr rv) p) = Inr (Value (value (inputBox p)))) \<and>
   (c rv = Inl e \<longrightarrow> outcome (SearchPatternPrompter_promptUser c v (Inr rv) p) = Inl e) \<and>
   (c rv = Inr False \<and> v rv = Inl e \<longrightarrow>
      outcome (SearchPatternPrompter_promptUser c v (Inr rv) p) = Inl e)"
proof -
  let ?p1 = "p\<lparr> inputBox := (inputBox p)\<lparr> busy := True \<rparr> \<rparr>"
  obtain states q out where vp: "validationPhase c v rv ?p1 = (states, q, out)"
    by (cases "validationPhase c v rv ?p1") auto
  from validationPhase_busy [OF vp]
  have 1: "states \<noteq> []" and 2: "\<forall>t \<in> set states. inputBox t = inputBox ?p1"
    and 3: "inputBox q = inputBox ?p1" by auto
  have run: "SearchPatternPrompter_promptUser c v (Inr rv) p =
      \<lparr> phase = states, final = q\<lparr> inputBox := (inputBox q)\<lparr> busy := False \<rparr> \<rparr>, outcome = out \<rparr>"
    by (simp add: SearchPatternPrompter_promptUser_def Let_def vp)
  have out: "(c rv = Inr True \<longrightarrow> out = Inr rv) \<and>
      (c rv = Inr False \<and> v rv = Inr True \<longrightarrow> out = Inr (Value (value (inputBox p)))) \<and>
      (c rv = Inl e \<longrightarrow> out = Inl e) \<and> (c rv = Inr False \<and> v rv = Inl e \<longrightarrow> out = Inl e)"
    using vp by (auto simp: validationPhase_def Let_def)
  show ?thesis unfolding run using 1 2 out by simp
qed


theorem promptUser_busy_witness:
  "outcome (SearchPatternPrompter_promptUser
      (\<lambda>r. case r of Value x \<Rightarrow> Inr False | Back \<Rightarrow> Inr True | Cancel \<Rightarrow> Inr True)
      (\<lambda>r. Inr True) (Inr Back)
      (SearchPatternPrompter_new \<lparr> groupName = ''g'', regionName = ''r'' \<rparr> \<lparr> logFilterPattern = None \<rparr>
         \<lparr> searchPattern = None, retryValidationMessage = None \<rparr>
         ((TestInputBox_new :: unit InputBox)\<lparr> value := ''abc'' \<rparr>))) = Inr Back \<and>
   \<not> busy (inputBox (final (SearchPatternPrompter_promptUser
      (\<lambda>r. case r of Value x \<Rightarrow> Inr False | Back \<Rightarrow> Inr True | Cancel \<Rightarrow> Inr True)
      (\<lambda>r. Inr True) (Inr Back)
      (SearchPatternPrompter_new \<lparr> groupName = ''g'', regionName = ''r'' \<rparr> \<lparr> logFilterPattern = None \<rparr>
         \<lparr> searchPattern = None, retryValidationMessage = None \<rparr>
         ((TestInputBox_new :: unit InputBox)\<lparr> value := ''abc'' \<rparr>))))) \<and>
   outcome (SearchPatternPrompter_promptUser
      (\<lambda>r. case r of Value x \<Rightarrow> Inr False | Back \<Rightarrow> Inr True | Cancel \<Rightarrow> Inr True)
      (\<lambda>r. Inr True) (Inr (Value ''abc''))
      (SearchPatternPrompter_new \<lparr> groupName = ''g'', regionName = ''r'' \<rparr> \<lparr> logFilterPattern = None \<rparr>
         \<lparr> searchPattern = None, retryValidationMessage = None \<rparr>
         ((TestInputBox_new :: unit InputBox)\<lparr> value := ''abc'' \<rparr>))) = Inr (Value ''abc'') \<and>
   map (\<lambda>t. busy (inputBox t)) (phase (SearchPatternPrompter_promptUser
      (\<lambda>r. case r of Value x \<Rightarrow> Inr False | Back \<Rightarrow> Inr True | Cancel \<Rightarrow> Inr True)
      (\<lambda>r. Inr True) (Inr (Value ''abc''))
      (SearchPatternPrompter_new \<lparr> groupName = ''g'', regionName = ''r'' \<rparr> \<lparr> logFilterPattern = None \<rparr>
         \<lparr> searchPattern = None, retryValidationMessage = None \<rparr>
         ((TestInputBox_new :: unit InputBox)\<lparr> value := ''abc'' \<rparr>)))) = [True, True] \<and>
   \<not> busy (inputBox (final (SearchPatternPrompter_promptUser
      (\<lambda>r. case r of Value x \<Rightarrow> Inr False | Back \<Rightarrow> Inr True | Cancel \<Rightarrow> Inr True)
      (\<lambda>r. Inr True) (Inr (Value ''abc''))
      (SearchPatternPrompter_new \<lparr> groupName = ''g'', regionName = ''r'' \<rparr> \<lparr> logFilterPattern = None \<rparr>
         \<lparr> searchPattern = None, retryValidationMessage = None \<rparr>
         ((TestInputBox_new :: unit InputBox)\<lparr> value := ''abc'' \<rparr>))))) \<and>
   outcome (SearchPatternPrompter_promptUser
      (\<lambda>r. Inl (TypeError ''isWizardControl failed'')) (\<lambda>r. Inr True) (Inr (Value ''abc''))
      (SearchPatternPrompter_new \<lparr> groupName = ''g'', regionName = ''r'' \<rparr> \<lparr> logFilterPattern = None \<rparr>
         \<lparr> searchPattern = None, retryValidationMessage = None \<rparr>
         ((TestInputBox_new :: unit InputBox)\<lparr> value := ''abc'' \<rparr>))) =
     Inl (TypeError ''isWizardControl failed'') \<and>
   \<not> busy (inputBox (final (SearchPatternPrompter_promptUser
      (\<lambda>r. Inl (TypeError ''isWizardControl failed'')) (\<lambda>r. Inr True) (Inr (Value ''abc''))
      (SearchPatternPrompter_new \<lparr> groupName = ''g'', regionName = ''r'' \<rparr> \<lparr> logFilterPattern = None \<rparr>
         \<lparr> searchPattern = None, retryValidationMessage = None \<rparr>
         ((TestInputBox_new :: unit InputBox)\<lparr> value := ''abc'' \<rparr>)))))"
  using
    promptUser_busy [where
      c = "\<lambda>r. case r of Value x \<Rightarrow> Inr False | Back \<Rightarrow> Inr True | Cancel \<Rightarrow> Inr True"
      and v = "\<lambda>r. Inr True" and rv = Back
      and p = "SearchPatternPrompter_new \<lparr> groupName = ''g'', regionName = ''r'' \<rparr>
         \<lparr> logFilterPattern = None \<rparr> \<lparr> searchPattern = None, retryValidationMessage = None \<rparr>
         ((TestInputBox_new :: unit InputBox)\<lparr> value := ''abc'' \<rparr>)"]
    promptUser_busy [where
      c = "\<lambda>r. case r of Value x \<Rightarrow> Inr False | Back \<Rightarrow> Inr True | Cancel \<Rightarrow> Inr True"
      and v = "\<lambda>r. Inr True" and rv = "Value ''abc''"
      and p = "SearchPatternPrompter_new \<lparr> groupName = ''g'', regionName = ''r'' \<rparr>
         \<lparr> logFilterPattern = None \<rparr> \<lparr> searchPattern = None, retryValidationMessage = None \<rparr>
         ((TestInputBox_new :: unit InputBox)\<lparr> value := ''abc'' \<rparr>)"]
    promptUser_busy [where
      c = "\<lambda>r. Inl (TypeError ''isWizardControl failed'')"
      and v = "\<lambda>r. Inr True" and rv = "Value ''abc''"
      and e = "TypeError ''isWizardControl failed''"
      and p = "SearchPatternPrompter_new \<lparr> groupName = ''g'', regionName = ''r'' \<rparr>
         \<lparr> logFilterPattern = None \<rparr> \<lparr> searchPattern = None, retryValidationMessage = None \<rparr>
         ((TestInputBox_new :: unit InputBox)\<lparr> value := ''abc'' \<rparr>)"]
  by (simp add: SearchPatternPrompter_promptUser_def validationPhase_def
        SearchPatternPrompter_new_def TestInputBox_new_def Let_def)

subsection \<open>Waiting for the debug adapter\<close>

lemma testDebugAdapter_cases:
  "(testDebugAdapter tester = Inr True \<longleftrightarrow>
      disconnect tester = None \<and> connect tester = Inr True \<and> isDebugServerUp tester = Inr True) \<and>
   (testDebugAdapter tester = Inr False \<longleftrightarrow>
      disconnect tester = None \<and> \<not> (connect tester = Inr True \<and> isDebugServerUp tester = Inr True)) \<and>
   (testDebugAdapter tester = Inl err \<longleftrightarrow> disconnect tester = Some err)"
  by (auto simp: testDebugAdapter_def Let_def split: sum.splits bool.splits option.splits)



lemma retryLoop_Some_exit:
  assumes some: "retryLoop testers now stopMillis i = Some y"
  shows "\<exists>n\<ge>i. testDebugAdapter (testers n) \<noteq> Inr False \<or> greaterThanNumber (now n) stopMillis"
proof (rule retryLoop.raw_induct
    [where P = "\<lambda>T N S k z. \<exists>n\<ge>k. testDebugAdapter (T n) \<noteq> Inr False \<or> greaterThanNumber (N n) S",
      OF _ some])
  fix f :: "(nat \<Rightarrow> Heartbeat) \<Rightarrow> (nat \<Rightarrow> int) \<Rightarrow> number \<Rightarrow> nat \<Rightarrow> (error + bool \<times> nat) option"
    and T N S k z
  assume IH: "\<And>T N S k z. f T N S k = Some z \<Longrightarrow>
      \<exists>n\<ge>k. testDebugAdapter (T n) \<noteq> Inr False \<or> greaterThanNumber (N n) S"
  assume body: "(case testDebugAdapter (T k) of
        Inl err \<Rightarrow> Some (Inl err)
      | Inr available \<Rightarrow>
          if available then Some (Inr (True, k))
          else if greaterThanNumber (N k) S then Some (Inr (False, k))
          else f T N S (Suc k)) = Some z"
  show "\<exists>n\<ge>k. testDebugAdapter (T n) \<noteq> Inr False \<or> greaterThanNumber (N n) S"
  proof (cases "testDebugAdapter (T k) \<noteq> Inr False \<or> greaterThanNumber (N k) S")
    case True
    then show ?thesis by (intro exI [of _ k]) simp
  next
    case False
    with body have "f T N S (Suc k) = Some z" by simp
    from IH [OF this] obtain n where "n \<ge> Suc k"
      and "testDebugAdapter (T n) \<noteq> Inr False \<or> greaterThanNumber (N n) S"
      by blast
    then show ?thesis by (intro exI [of _ n]) simp
  qed
qed

lemma retryLoop_exit_at:
  assumes "\<forall>j. i \<le> j \<and> j < n \<longrightarrow>
             testDebugAdapter (testers j) = Inr False \<and> \<not> greaterThanNumber (now j) stopMillis"
    and "i \<le> n"
    and "testDebugAdapter (testers n) \<noteq> Inr False \<or> greaterThanNumber (now n) stopMillis"
  shows "retryLoop testers now stopMillis i =
           Some (case testDebugAdapter (testers n) of
                   Inl err \<Rightarrow> Inl err
                 | Inr available \<Rightarrow> Inr (available, n))"
  using assms
proof (induction "n - i" arbitrary: i)
  case 0
  then have "i = n" by simp
  with 0(4) show ?case
    by (subst retryLoop.simps) (auto split: sum.splits)
next
  case (Suc k)
  then have lt: "i < n" by simp
  with Suc(3) have idle: "testDebugAdapter (testers i) = Inr False"
    "\<not> greaterThanNumber (now i) stopMillis" by auto
  have "retryLoop testers now stopMillis (Suc i) =
           Some (case testDebugAdapter (testers n) of
                   Inl err \<Rightarrow> Inl err
                 | Inr available \<Rightarrow> Inr (available, n))"
  proof (rule Suc(1))
    show "k = n - Suc i" using Suc(2) by simp
    show "\<forall>j. Suc i \<le> j \<and> j < n \<longrightarrow>
             testDebugAdapter (testers j) = Inr False \<and> \<not> greaterThanNumber (now j) stopMillis"
      using Suc(3) by auto
    show "Suc i \<le> n" using lt by simp
    show "testDebugAdapter (testers n) \<noteq> Inr False \<or> greaterThanNumber (now n) stopMillis"
      by (rule Suc(5))
  qed
  moreover have "retryLoop testers now stopMillis i = retryLoop testers now stopMillis (Suc i)"
    by (subst retryLoop.simps) (simp add: idle)
  ultimately show ?case by simp
qed

lemma retryLoop_None_iff:
  "retryLoop testers now stopMillis 0 = None \<longleftrightarrow>
     (\<forall>n. testDebugAdapter (testers n) = Inr False \<and> \<not> greaterThanNumber (now n) stopMillis)"
proof
  assume none: "retryLoop testers now stopMillis 0 = None"
  show "\<forall>n. testDebugAdapter (testers n) = Inr False \<and> \<not> greaterThanNumber (now n) stopMillis"
  proof (rule ccontr)
    assume "\<not> ?thesis"
    then have ex: "\<exists>n. testDebugAdapter (testers n) \<noteq> Inr False \<or> greaterThanNumber (now n) stopMillis"
      by blast
    then obtain m where
      m: "testDebugAdapter (testers m) \<noteq> Inr False \<or> greaterThanNumber (now m) stopMillis"
      and least: "\<forall>j<m. \<not> (testDebugAdapter (testers j) \<noteq> Inr False \<or>
                              greaterThanNumber (now j) stopMillis)"
      using exists_least_iff [of "\<lambda>n. testDebugAdapter (testers n) \<noteq> Inr False \<or>
                              greaterThanNumber (now n) stopMillis"] by auto
    from least have "\<forall>j. 0 \<le> j \<and> j < m \<longrightarrow>
            testDebugAdapter (testers j) = Inr False \<and> \<not> greaterThanNumber (now j) stopMillis"
      by simp
    from retryLoop_exit_at [OF this _ m] none show False by simp
  qed
next
  assume idle: "\<forall>n. testDebugAdapter (testers n) = Inr False \<and> \<not> greaterThanNumber (now n) stopMillis"
  show "retryLoop testers now stopMillis 0 = None"
  proof (cases "retryLoop testers now stopMillis 0")
    case None
    then show ?thesis .
  next
    case (Some y)
    from retryLoop_Some_exit [OF this] idle show ?thesis by blast
  qed
qed


lemma waitForPythonDebugAdapter_exit_at:
  assumes "\<forall>j<n. testDebugAdapter (testers j) = Inr False \<and>
             \<not> greaterThanNumber (now j) (plusNumber startMillis timeout)"
    and "testDebugAdapter (testers n) \<noteq> Inr False \<or>
         greaterThanNumber (now n) (plusNumber startMillis timeout)"
  shows "waitForPythonDebugAdapter debugPort timeout startMillis testers now =
           Some (case testDebugAdapter (testers n) of
                   Inl err \<Rightarrow> Inl err
                 | Inr available \<Rightarrow>
                     Inr \<lparr> debugServerAvailable = available, passes = Suc n,
                           channelWarnings =
                             (if \<not> available
                              then [''AWS.sam.local.invoke.python.server.not.available'']
                              else []) \<rparr>)"
proof -
  from assms(1) have "\<forall>j. 0 \<le> j \<and> j < n \<longrightarrow> testDebugAdapter (testers j) = Inr False \<and>
             \<not> greaterThanNumber (now j) (plusNumber startMillis timeout)" by simp
  from retryLoop_exit_at [OF this _ assms(2)] show ?thesis
    by (simp add: waitForPythonDebugAdapter_def Let_def split: sum.splits)
qed

lemma waitForPythonDebugAdapter_None_iff:
  "waitForPythonDebugAdapter debugPort timeout startMillis testers now = None \<longleftrightarrow>
     (\<forall>n. testDebugAdapter (testers n) = Inr False \<and>
          \<not> greaterThanNumber (now n) (plusNumber startMillis timeout))"
proof -
  have "waitForPythonDebugAdapter debugPort timeout startMillis testers now = None \<longleftrightarrow>
        retryLoop testers now (plusNumber startMillis timeout) 0 = None"
    by (auto simp: waitForPythonDebugAdapter_def Let_def split: option.splits sum.splits)
  then show ?thesis by (simp only: retryLoop_None_iff)
qed

text \<open>
  C8, as amended. For a finite timeout, \<open>waitForPythonDebugAdapter\<close> fails to return
  exactly when every pass finds no debug server, has a \<open>disconnect()\<close> that returns, and
  reads a time that is not beyond the start time plus the timeout. Otherwise the first
  pass that is not like that decides: when \<open>connect()\<close> and \<open>isDebugServerUp()\<close> both
  returned true, the function returns with no warning; when they did not and the time
  read is beyond the start time plus the timeout, it returns and the warning is logged
  (the only case in which it is); when its \<open>disconnect()\<close> raises, the function is
  rejected with that error. For the timeout \<open>Infinity\<close> the time check never ends the
  loop: the function fails to return exactly when no pass finds the debug server and
  every \<open>disconnect()\<close> returns.
\<close>

theorem waitForPythonDebugAdapter_settles:
  "(waitForPythonDebugAdapter debugPort (Num t) startMillis testers now = None \<longleftrightarrow>
      (\<forall>j. disconnect (testers j) = None \<and>
           \<not> (connect (testers j) = Inr True \<and> isDebugServerUp (testers j) = Inr True) \<and>
           now j \<le> startMillis + t)) \<and>
   ((\<forall>j<n. disconnect (testers j) = None \<and>
           \<not> (connect (testers j) = Inr True \<and> isDebugServerUp (testers j) = Inr True) \<and>
           now j \<le> startMillis + t) \<and>
    disconnect (testers n) = None \<and>
    connect (testers n) = Inr True \<and> isDebugServerUp (testers n) = Inr True \<longrightarrow>
      waitForPythonDebugAdapter debugPort (Num t) startMillis testers now =
        Some (Inr \<lparr> debugServerAvailable = True, passes = Suc n, channelWarnings = [] \<rparr>)) \<and>
   ((\<forall>j<n. disconnect (testers j) = None \<and>
           \<not> (connect (testers j) = Inr True \<and> isDebugServerUp (testers j) = Inr True) \<and>
           now j \<le> startMillis + t) \<and>
    disconnect (testers n) = None \<and>
    \<not> (connect (testers n) = Inr True \<and> isDebugServerUp (testers n) = Inr True) \<and>
    now n > startMillis + t \<longrightarrow>
      waitForPythonDebugAdapter debugPort (Num t) startMillis testers now =
        Some (Inr \<lparr> debugServerAvailable = False, passes = Suc n,
               channelWarnings = [''AWS.sam.local.invoke.python.server.not.available''] \<rparr>)) \<and>
   ((\<forall>j<n. disconnect (testers j) = None \<and>
           \<not> (connect (testers j) = Inr True \<and> isDebugServerUp (testers j) = Inr True) \<and>
           now j \<le> startMillis + t) \<and>
    disconnect (testers n) = Some err \<longrightarrow>
      waitForPythonDebugAdapter debugPort (Num t) startMillis testers now = Some (Inl err)) \<and>
   (waitForPythonDebugAdapter debugPort Infinity startMillis testers now = None \<longleftrightarrow>
      (\<forall>j. disconnect (testers j) = None \<and>
           \<not> (connect (testers j) = Inr True \<and> isDebugServerUp (testers j) = Inr True)))"
proof (intro conjI impI)
  show "waitForPythonDebugAdapter debugPort (Num t) startMillis testers now = None \<longleftrightarrow>
      (\<forall>j. disconnect (testers j) = None \<and>
           \<not> (connect (testers j) = Inr True \<and> isDebugServerUp (testers j) = Inr True) \<and>
           now j \<le> startMillis + t)"
    by (simp add: waitForPythonDebugAdapter_None_iff testDebugAdapter_cases not_less)
  show "waitForPythonDebugAdapter debugPort Infinity startMillis testers now = None \<longleftrightarrow>
      (\<forall>j. disconnect (testers j) = None \<and>
           \<not> (connect (testers j) = Inr True \<and> isDebugServerUp (testers j) = Inr True))"
    by (simp add: waitForPythonDebugAdapter_None_iff testDebugAdapter_cases)
next
  assume a: "(\<forall>j<n. disconnect (testers j) = None \<and>
           \<not> (connect (testers j) = Inr True \<and> isDebugServerUp (testers j) = Inr True) \<and>
           now j \<le> startMillis + t) \<and>
    disconnect (testers n) = None \<and>
    connect (testers n) = Inr True \<and> isDebugServerUp (testers n) = Inr True"
  then have up: "testDebugAdapter (testers n) = Inr True" by (simp add: testDebugAdapter_cases)
  from a have "\<forall>j<n. testDebugAdapter (testers j) = Inr False \<and>
             \<not> greaterThanNumber (now j) (plusNumber startMillis (Num t))"
    by (simp add: testDebugAdapter_cases not_less)
  from waitForPythonDebugAdapter_exit_at [OF this, of debugPort] up
  show "waitForPythonDebugAdapter debugPort (Num t) startMillis testers now =
        Some (Inr \<lparr> debugServerAvailable = True, passes = Suc n, channelWarnings = [] \<rparr>)"
    by simp
next
  assume a: "(\<forall>j<n. disconnect (testers j) = None \<and>
           \<not> (connect (testers j) = Inr True \<and> isDebugServerUp (testers j) = Inr True) \<and>
           now j \<le> startMillis + t) \<and>
    disconnect (testers n) = None \<and>
    \<not> (connect (testers n) = Inr True \<and> isDebugServerUp (testers n) = Inr True) \<and>
    now n > startMillis + t"
  then have down: "testDebugAdapter (testers n) = Inr False" by (simp add: testDebugAdapter_cases)
  from a have late: "greaterThanNumber (now n) (plusNumber startMillis (Num t))" by simp
  from a have "\<forall>j<n. testDebugAdapter (testers j) = Inr False \<and>
             \<not> greaterThanNumber (now j) (plusNumber startMillis (Num t))"
    by (simp add: testDebugAdapter_cases not_less)
  from waitForPythonDebugAdapter_exit_at [OF this, of debugPort] down late
  show "waitForPythonDebugAdapter debugPort (Num t) startMillis testers now =
        Some (Inr \<lparr> debugServerAvailable = False, passes = Suc n,
               channelWarnings = [''AWS.sam.local.invoke.python.server.not.available''] \<rparr>)"
    by simp
next
  assume a: "(\<forall>j<n. disconnect (testers j) = None \<and>
           \<not> (connect (testers j) = Inr True \<and> isDebugServerUp (testers j) = Inr True) \<and>
           now j \<le> startMillis + t) \<and>
    disconnect (testers n) = Some err"
  then have broke: "testDebugAdapter (testers n) = Inl err" by (simp add: testDebugAdapter_cases)
  from a have "\<forall>j<n. testDebugAdapter (testers j) = Inr False \<and>
             \<not> greaterThanNumber (now j) (plusNumber startMillis (Num t))"
    by (simp add: testDebugAdapter_cases not_less)
  from waitForPythonDebugAdapter_exit_at [OF this, of debugPort] broke
  show "waitForPythonDebugAdapter debugPort (Num t) startMillis testers now = Some (Inl err)"
    by simp
qed

theorem waitForPythonDebugAdapter_settles_witness:
  "waitForPythonDebugAdapter 5678 (Num 2500) 0
       (\<lambda>i. \<lparr> connect = Inr (2 \<le> i), isDebugServerUp = Inr True, disconnect = None \<rparr>)
       secondsClock =
     Some (Inr \<lparr> debugServerAvailable = True, passes = 3, channelWarnings = [] \<rparr>) \<and>
   waitForPythonDebugAdapter 5678 (Num 2500) 0 deadAdapter secondsClock =
     Some (Inr \<lparr> debugServerAvailable = False, passes = 4,
            channelWarnings = [''AWS.sam.local.invoke.python.server.not.available''] \<rparr>) \<and>
   waitForPythonDebugAdapter 5678 (Num 2500) 0
       (\<lambda>i. \<lparr> connect = Inr False, isDebugServerUp = Inr False,
              disconnect = (if i = 1 then Some (Error ''socket closed'') else None) \<rparr>)
       secondsClock =
     Some (Inl (Error ''socket closed'')) \<and>
   waitForPythonDebugAdapter 5678 (Num 2500) 0 deadAdapter (\<lambda>i. 0) = None \<and>
   waitForPythonDebugAdapter 5678 Infinity 100 deadAdapter secondsClock = None"
  using
    waitForPythonDebugAdapter_settles [where debugPort = 5678 and t = 2500 and startMillis = 0
      and testers = "\<lambda>i. \<lparr> connect = Inr (2 \<le> i), isDebugServerUp = Inr True, disconnect = None \<rparr>"
      and now = secondsClock and n = 2]
    waitForPythonDebugAdapter_settles [where debugPort = 5678 and t = 2500 and startMillis = 0
      and testers = deadAdapter and now = secondsClock and n = 3]
    waitForPythonDebugAdapter_settles [where debugPort = 5678 and t = 2500 and startMillis = 0
      and testers = "\<lambda>i. \<lparr> connect = Inr False, isDebugServerUp = Inr False,
              disconnect = (if i = 1 then Some (Error ''socket closed'') else None) \<rparr>"
      and now = secondsClock and n = 1 and err = "Error ''socket closed''"]
    waitForPythonDebugAdapter_settles [where debugPort = 5678 and t = 2500 and startMillis = 0
      and testers = deadAdapter and now = "\<lambda>i. 0"]
    waitForPythonDebugAdapter_settles [where debugPort = 5678 and startMillis = 100
      and testers = deadAdapter and now = secondsClock]
  by (simp add: deadAdapter_def secondsClock_def eval_nat_numeral All_less_Suc)

text \<open>
  C8 as it was stated fails: \<open>Infinity\<close> is a positive timeout, and with it and a debug
  adapter that never answers, \<open>waitForPythonDebugAdapter\<close> never returns.
\<close>

theorem waitForPythonDebugAdapter_settles_counterexample:
  "waitForPythonDebugAdapter 5678 Infinity 0 deadAdapter secondsClock = None"
  by (simp add: waitForPythonDebugAdapter_None_iff testDebugAdapter_def deadAdapter_def)

subsection \<open>The wizard engine and tailLogGroup\<close>

lemma foldl_reach:
  assumes absorbing: "\<And>a. nxt T a = T"
  shows "foldl nxt s0 xs = T \<longleftrightarrow>
           s0 = T \<or> (\<exists>pre a rest. xs = pre @ a # rest \<and> foldl nxt s0 pre \<noteq> T \<and>
                        nxt (foldl nxt s0 pre) a = T)"
proof
  assume "foldl nxt s0 xs = T"
  then show "s0 = T \<or> (\<exists>pre a rest. xs = pre @ a # rest \<and> foldl nxt s0 pre \<noteq> T \<and>
                        nxt (foldl nxt s0 pre) a = T)"
  proof (induction xs rule: rev_induct)
    case Nil
    then show ?case by simp
  next
    case (snoc x xs)
    show ?case
    proof (cases "foldl nxt s0 xs = T")
      case True
      from snoc.IH [OF True] show ?thesis
      proof
        assume "s0 = T" then show ?thesis ..
      next
        assume "\<exists>pre a rest. xs = pre @ a # rest \<and> foldl nxt s0 pre \<noteq> T \<and>
                  nxt (foldl nxt s0 pre) a = T"
        then obtain pre a rest where "xs = pre @ a # rest" "foldl nxt s0 pre \<noteq> T"
          "nxt (foldl nxt s0 pre) a = T" by blast
        then have "xs @ [x] = pre @ a # (rest @ [x]) \<and> foldl nxt s0 pre \<noteq> T \<and>
          nxt (foldl nxt s0 pre) a = T" by simp
        then show ?thesis by blast
      qed
    next
      case False
      moreover from snoc.prems have "nxt (foldl nxt s0 xs) x = T" by simp
      ultimately have "xs @ [x] = xs @ x # [] \<and> foldl nxt s0 xs \<noteq> T \<and>
          nxt (foldl nxt s0 xs) x = T" by simp
      then show ?thesis by blast
    qed
  qed
next
  have stay: "foldl nxt T ys = T" for ys
    by (induction ys) (simp_all add: absorbing)
  assume "s0 = T \<or> (\<exists>pre a rest. xs = pre @ a # rest \<and> foldl nxt s0 pre \<noteq> T \<and>
                        nxt (foldl nxt s0 pre) a = T)"
  then show "foldl nxt s0 xs = T"
  proof
    assume "s0 = T" then show ?thesis by (simp add: stay)
  next
    assume "\<exists>pre a rest. xs = pre @ a # rest \<and> foldl nxt s0 pre \<noteq> T \<and>
                        nxt (foldl nxt s0 pre) a = T"
    then obtain pre a rest where "xs = pre @ a # rest" "nxt (foldl nxt s0 pre) a = T" by blast
    then show ?thesis by (simp add: stay)
  qed
qed

lemma advance_DONE_iff:
  "advance form shared st history = DONE result \<longleftrightarrow>
     result = Some st \<and> nextUnresolved form shared st = Inr None"
  by (auto simp: advance_def split: sum.splits option.splits)


lemma answerPrompt_exit_iff:
  "s \<noteq> DONE None \<Longrightarrow>
   answerPrompt form prompted s a = DONE None \<longleftrightarrow>
     (\<exists>w st h b p. s = RUNNING w st h b p \<and> (a = Cancel \<or> a = Back \<and> h = []))"
  by (cases s; cases a) (auto simp: Let_def advance_DONE_iff split: list.splits)


lemma wizardAfter_exit_iff:
  "wizardAfter form prompted shared initState answers = DONE None \<longleftrightarrow>
     (\<exists>pre a rest w st h b p. answers = pre @ a # rest \<and>
        wizardAfter form prompted shared initState pre = RUNNING w st h b p \<and>
        (a = Cancel \<or> a = Back \<and> h = []))"
proof -
  let ?nxt = "answerPrompt form prompted"
  let ?s0 = "advance form shared initState []"
  have s0: "?s0 \<noteq> DONE None" by (simp add: advance_DONE_iff)
  have "foldl ?nxt ?s0 answers = DONE None \<longleftrightarrow>
          (\<exists>pre a rest. answers = pre @ a # rest \<and> foldl ?nxt ?s0 pre \<noteq> DONE None \<and>
             ?nxt (foldl ?nxt ?s0 pre) a = DONE None)"
    using foldl_reach [of ?nxt "DONE None" ?s0 answers] s0 by simp
  also have "\<dots> \<longleftrightarrow> (\<exists>pre a rest w st h b p. answers = pre @ a # rest \<and>
        foldl ?nxt ?s0 pre = RUNNING w st h b p \<and> (a = Cancel \<or> a = Back \<and> h = []))"
  proof (intro iffI; elim exE conjE)
    fix pre a rest
    assume 1: "answers = pre @ a # rest" and 2: "foldl ?nxt ?s0 pre \<noteq> DONE None"
      and 3: "?nxt (foldl ?nxt ?s0 pre) a = DONE None"
    from 3 obtain w st h b p where "foldl ?nxt ?s0 pre = RUNNING w st h b p"
      "a = Cancel \<or> a = Back \<and> h = []"
      unfolding answerPrompt_exit_iff [OF 2] by blast
    with 1 show "\<exists>pre a rest w st h b p. answers = pre @ a # rest \<and>
        foldl ?nxt ?s0 pre = RUNNING w st h b p \<and> (a = Cancel \<or> a = Back \<and> h = [])"
      by blast
  next
    fix pre a rest w st h b p
    assume 1: "answers = pre @ a # rest" and 2: "foldl ?nxt ?s0 pre = RUNNING w st h b p"
      and 3: "a = Cancel \<or> a = Back \<and> h = []"
    from 2 have ne: "foldl ?nxt ?s0 pre \<noteq> DONE None" by simp
    have "?nxt (foldl ?nxt ?s0 pre) a = DONE None"
      unfolding answerPrompt_exit_iff [OF ne] using 2 3 by blast
    with 1 ne show "\<exists>pre a rest. answers = pre @ a # rest \<and> foldl ?nxt ?s0 pre \<noteq> DONE None \<and>
             ?nxt (foldl ?nxt ?s0 pre) a = DONE None"
      by blast
  qed
  finally show ?thesis by (simp only: wizardAfter_def)
qed



lemma answerPrompt_completed:
  "answerPrompt form prompted s a = DONE (Some st) \<Longrightarrow>
   s = DONE (Some st) \<or> (\<exists>w. nextUnresolved form w st = Inr None)"
  by (cases s; cases a) (auto simp: Let_def advance_DONE_iff split: list.splits)

lemma wizardAfter_completed:
  "wizardAfter form prompted shared initState answers = DONE (Some st) \<Longrightarrow>
   \<exists>w. nextUnresolved form w st = Inr None"
  unfolding wizardAfter_def
proof (induction answers rule: rev_induct)
  case Nil
  then show ?case by (auto simp: advance_DONE_iff)
next
  case (snoc x xs)
  from snoc.prems have "answerPrompt form prompted
      (foldl (answerPrompt form prompted) (advance form shared initState []) xs) x = DONE (Some st)"
    by simp
  from answerPrompt_completed [OF this] snoc.IH show ?case by blast
qed

lemma Wizard_run_Resolved_iff:
  "Wizard_run form prompted shared initState answers = Resolved r \<longleftrightarrow>
     wizardAfter form prompted shared initState answers = DONE r"
  by (simp add: Wizard_run_def split: WizardState.splits)


lemma prepareDocumentFailure_cancel:
  "prepareDocumentFailure isUC u err = CancellationError a \<longleftrightarrow> err = CancellationError a \<and> isUC err"
  by (auto simp: prepareDocumentFailure_def)

lemma prepareDocument_cancel:
  "prepareDocument isUC ed u = Inl (CancellationError a) \<longleftrightarrow>
     isUC (CancellationError a) \<and>
     (openTextDocument ed = Some (CancellationError a) \<or>
      openTextDocument ed = None \<and> showTextDocument ed = Some (CancellationError a))"
  by (auto simp: prepareDocument_def prepareDocumentFailure_cancel split: option.splits)

lemma tailLogGroup_afterRun_cancel:
  "tailLogGroup_afterRun isUC mk ed ld (Some resp) = Inl (CancellationError a) \<longleftrightarrow>
     submenuResponse resp \<noteq> None \<and> isUC (CancellationError a) \<and>
     (openTextDocument ed = Some (CancellationError a) \<or>
      openTextDocument ed = None \<and> showTextDocument ed = Some (CancellationError a))"
proof (cases "submenuResponse resp")
  case None
  then show ?thesis by (simp add: tailLogGroup_afterRun_def)
next
  case (Some sub)
  let ?u = "mk \<lparr> groupName = data sub, regionName = region sub \<rparr>"
  have "tailLogGroup_afterRun isUC mk ed ld (Some resp) = Inl (CancellationError a) \<longleftrightarrow>
        prepareDocument isUC ed ?u = Inl (CancellationError a)"
    using Some by (auto simp: tailLogGroup_afterRun_def Let_def split: sum.splits option.splits)
  then show ?thesis using Some by (simp add: prepareDocument_cancel)
qed

lemma TailLogGroupWizard_first_prompt:
  "\<exists>w st h b p. advance (TailLogGroupWizard_form tr lgi) shared
      (TailLogGroupWizard_initState lgi) [] = RUNNING w st h b p"
  by (cases lgi)
     (simp_all add: advance_def TailLogGroupWizard_form_def TailLogGroupWizard_initState_def
        submenuResponseBinding_def filterPatternBinding_def filterPatternPrompter_def)

lemma foldl_DONE: "foldl (answerPrompt form prompted) (DONE r) answers = DONE r"
  by (induction answers) simp_all

lemma tailLogGroup_cancel_first:
  "tailLogGroup isUC tr mk ed src ld (Cancel # rest) = Rejected (CancellationError ''user'')"
proof -
  let ?lgi = "case ld of Some l \<Rightarrow> Some \<lparr> groupName = groupName l, regionName = regionName l \<rparr>
              | None \<Rightarrow> None"
  obtain w st h b p where "advance (TailLogGroupWizard_form tr ?lgi) TailLogGroupWizard_retryState
      (TailLogGroupWizard_initState ?lgi) [] = RUNNING w st h b p"
    using TailLogGroupWizard_first_prompt by blast
  then have "Wizard_run (TailLogGroupWizard_form tr ?lgi) TailLogGroupWizard_prompted
      TailLogGroupWizard_retryState (TailLogGroupWizard_initState ?lgi) (Cancel # rest) = Resolved None"
    by (simp add: Wizard_run_def wizardAfter_def Let_def foldl_DONE)
  then show ?thesis by (simp add: tailLogGroup_def Let_def tailLogGroup_afterRun_def)
qed

text \<open>
  C4, as amended. The half about \<open>run()\<close> stands as it was stated: \<open>run()\<close> resolves with
  nothing exactly when the user exited, that is when, at some prompt the wizard was
  waiting at, the user cancelled, or went back with no earlier step to go back to; and
  a state that \<open>run()\<close> resolves with has no unresolved field left. \<open>tailLogGroup\<close> raises
  \<open>CancellationError('user')\<close> whenever \<open>run()\<close> returned nothing, as it does when the user
  cancels the first prompt. When \<open>run()\<close> returned a response, \<open>tailLogGroup\<close> goes on to
  prepare the document, and it raises a \<open>CancellationError\<close> exactly when opening or
  showing the document fails with a cancellation that \<open>isUserCancelled\<close> accepts, which
  \<open>prepareDocument\<close> raises again unchanged.
\<close>

theorem tailLogGroup_cancellation:
  "(Wizard_run form prompted shared initState answers = Resolved None \<longleftrightarrow>
      (\<exists>pre a rest w st h b p. answers = pre @ a # rest \<and>
         wizardAfter form prompted shared initState pre = RUNNING w st h b p \<and>
         (a = Cancel \<or> a = Back \<and> h = []))) \<and>
   (Wizard_run form prompted shared initState answers = Resolved (Some completed) \<longrightarrow>
      (\<exists>w. nextUnresolved form w completed = Inr None)) \<and>
   tailLogGroup_afterRun isUC mk ed ld None = Inl (CancellationError ''user'') \<and>
   tailLogGroup isUC tr mk ed src ld (Cancel # more_answers) = Rejected (CancellationError ''user'') \<and>
   (tailLogGroup_afterRun isUC mk ed ld (Some resp) = Inl (CancellationError agent) \<longleftrightarrow>
      submenuResponse resp \<noteq> None \<and> isUC (CancellationError agent) \<and>
      (openTextDocument ed = Some (CancellationError agent) \<or>
       openTextDocument ed = None \<and> showTextDocument ed = Some (CancellationError agent)))"
proof (intro conjI impI)
  show "Wizard_run form prompted shared initState answers = Resolved None \<longleftrightarrow>
      (\<exists>pre a rest w st h b p. answers = pre @ a # rest \<and>
         wizardAfter form prompted shared initState pre = RUNNING w st h b p \<and>
         (a = Cancel \<or> a = Back \<and> h = []))"
    unfolding Wizard_run_Resolved_iff by (rule wizardAfter_exit_iff)
  show "tailLogGroup_afterRun isUC mk ed ld None = Inl (CancellationError ''user'')"
    by (simp add: tailLogGroup_afterRun_def)
  show "tailLogGroup isUC tr mk ed src ld (Cancel # more_answers) = Rejected (CancellationError ''user'')"
    by (rule tailLogGroup_cancel_first)
  show "tailLogGroup_afterRun isUC mk ed ld (Some resp) = Inl (CancellationError agent) \<longleftrightarrow>
      submenuResponse resp \<noteq> None \<and> isUC (CancellationError agent) \<and>
      (openTextDocument ed = Some (CancellationError agent) \<or>
       openTextDocument ed = None \<and> showTextDocument ed = Some (CancellationError agent))"
    by (rule tailLogGroup_afterRun_cancel)
next
  assume "Wizard_run form prompted shared initState answers = Resolved (Some completed)"
  then show "\<exists>w. nextUnresolved form w completed = Inr None"
    unfolding Wizard_run_Resolved_iff by (rule wizardAfter_completed)
qed

theorem tailLogGroup_cancellation_witness:
  "Wizard_run (TailLogGroupWizard_form (\<lambda>s n. s) None) TailLogGroupWizard_prompted TailLogGroupWizard_retryState (TailLogGroupWizard_initState None) [(Value (SubmenuValue \<lparr> data = ''g'', region = ''us-east-1'' \<rparr>)), Cancel] = Resolved None \<and>
   Wizard_run (TailLogGroupWizard_form (\<lambda>s n. s) None) TailLogGroupWizard_prompted TailLogGroupWizard_retryState (TailLogGroupWizard_initState None) [Back, (Value (SubmenuValue \<lparr> data = ''g'', region = ''us-east-1'' \<rparr>))] = Resolved None \<and>
   Wizard_run (TailLogGroupWizard_form (\<lambda>s n. s) None) TailLogGroupWizard_prompted TailLogGroupWizard_retryState (TailLogGroupWizard_initState None) [(Value (SubmenuValue \<lparr> data = ''g'', region = ''us-east-1'' \<rparr>)), Back] = Pending \<and>
   Wizard_run (TailLogGroupWizard_form (\<lambda>s n. s) None) TailLogGroupWizard_prompted TailLogGroupWizard_retryState (TailLogGroupWizard_initState None) [(Value (SubmenuValue \<lparr> data = ''g'', region = ''us-east-1'' \<rparr>)), (Value (PatternValue ''ERROR''))] =
     Resolved (Some \<lparr> submenuResponse = Some \<lparr> data = ''g'', region = ''us-east-1'' \<rparr>, filterPattern = Some ''ERROR'' \<rparr>) \<and>
   nextUnresolved (TailLogGroupWizard_form (\<lambda>s n. s) None) TailLogGroupWizard_retryState \<lparr> submenuResponse = Some \<lparr> data = ''g'', region = ''us-east-1'' \<rparr>, filterPattern = Some ''ERROR'' \<rparr> = Inr None \<and>
   tailLogGroup_afterRun ((=) (CancellationError ''user'')) groupName \<lparr> openTextDocument = None, showTextDocument = None \<rparr> (Some \<lparr> groupName = ''g'', regionName = ''us-east-1'', groupArn = ''arn:aws:logs:g:*'' \<rparr>) None = Inl (CancellationError ''user'') \<and>
   tailLogGroup_afterRun ((=) (CancellationError ''user'')) groupName \<lparr> openTextDocument = None, showTextDocument = Some (CancellationError ''user'') \<rparr> (Some \<lparr> groupName = ''g'', regionName = ''us-east-1'', groupArn = ''arn:aws:logs:g:*'' \<rparr>) (Some \<lparr> submenuResponse = Some \<lparr> data = ''g'', region = ''us-east-1'' \<rparr>, filterPattern = Some ''ERROR'' \<rparr>) = Inl (CancellationError ''user'') \<and>
   tailLogGroup_afterRun ((=) (CancellationError ''user'')) groupName \<lparr> openTextDocument = None, showTextDocument = None \<rparr> (Some \<lparr> groupName = ''g'', regionName = ''us-east-1'', groupArn = ''arn:aws:logs:g:*'' \<rparr>) (Some \<lparr> submenuResponse = Some \<lparr> data = ''g'', region = ''us-east-1'' \<rparr>, filterPattern = Some ''ERROR'' \<rparr>) =
     Inr \<lparr> textDocument = \<lparr> uri = ''g'', languageId = ''json'' \<rparr>,
           command = \<lparr> logGroupIdentifiers = [''arn:aws:logs:g''],
                       logEventFilterPattern = Some ''ERROR'' \<rparr> \<rparr>"
  using
    tailLogGroup_cancellation [where form = "(TailLogGroupWizard_form (\<lambda>s n. s) None)" and prompted = TailLogGroupWizard_prompted
      and shared = TailLogGroupWizard_retryState and initState = "(TailLogGroupWizard_initState None)" and answers = "[(Value (SubmenuValue \<lparr> data = ''g'', region = ''us-east-1'' \<rparr>)), Cancel]"
      and isUC = "((=) (CancellationError ''user''))" and mk = groupName and ed = "\<lparr> openTextDocument = None, showTextDocument = Some (CancellationError ''user'') \<rparr>" and ld = "(Some \<lparr> groupName = ''g'', regionName = ''us-east-1'', groupArn = ''arn:aws:logs:g:*'' \<rparr>)" and resp = "\<lparr> submenuResponse = Some \<lparr> data = ''g'', region = ''us-east-1'' \<rparr>, filterPattern = Some ''ERROR'' \<rparr>"
      and agent = "''user''"]
    tailLogGroup_cancellation [where form = "(TailLogGroupWizard_form (\<lambda>s n. s) None)" and prompted = TailLogGroupWizard_prompted
      and shared = TailLogGroupWizard_retryState and initState = "(TailLogGroupWizard_initState None)" and answers = "[(Value (SubmenuValue \<lparr> data = ''g'', region = ''us-east-1'' \<rparr>)), (Value (PatternValue ''ERROR''))]"
      and completed = "\<lparr> submenuResponse = Some \<lparr> data = ''g'', region = ''us-east-1'' \<rparr>, filterPattern = Some ''ERROR'' \<rparr>" and isUC = "((=) (CancellationError ''user''))" and mk = groupName and ed = "\<lparr> openTextDocument = None, showTextDocument = None \<rparr>" and ld = "(Some \<lparr> groupName = ''g'', regionName = ''us-east-1'', groupArn = ''arn:aws:logs:g:*'' \<rparr>)"
      and resp = "\<lparr> submenuResponse = Some \<lparr> data = ''g'', region = ''us-east-1'' \<rparr>, filterPattern = Some ''ERROR'' \<rparr>"]
    formatGroupArn_append [of "''arn:aws:logs:g''"]
  by (simp add: Wizard_run_def wizardAfter_def advance_def invalidateFrom_def
        TailLogGroupWizard_form_def TailLogGroupWizard_initState_def
        submenuResponseBinding_def filterPatternBinding_def filterPatternPrompter_def
        tailLogGroup_afterRun_def prepareDocument_def prepareDocumentFailure_def Let_def)

text \<open>
  C4 as it was stated fails: \<open>run()\<close> returned a completed response, the user cancelled
  while the document was being opened, \<open>isUserCancelled\<close> accepts that cancellation (the
  very error \<open>tailLogGroup\<close> raises for a user's cancellation), and \<open>tailLogGroup\<close> raises
  \<open>CancellationError('user')\<close>.
\<close>

theorem tailLogGroup_cancellation_counterexample:
  "tailLogGroup_afterRun ((=) (CancellationError ''user'')) groupName
     \<lparr> openTextDocument = Some (CancellationError ''user''), showTextDocument = None \<rparr>
     (Some \<lparr> groupName = ''g'', regionName = ''us-east-1'', groupArn = ''arn:aws:logs:g:*'' \<rparr>)
     (Some \<lparr> submenuResponse = Some \<lparr> data = ''g'', region = ''us-east-1'' \<rparr>,
             filterPattern = Some ''ERROR'' \<rparr>)
   = Inl (CancellationError ''user'')"
  by (simp add: tailLogGroup_afterRun_def prepareDocument_def prepareDocumentFailure_def Let_def)







end
